theory Spec2Isabelle
  imports Complex_Main "HOL-Library.List_Lexorder" "HOL-Library.Char_ord"
begin

section \<open>Python values\<close>

text \<open>
  The adapter handles decoded JSON: \<open>None\<close>, booleans, numbers, strings, lists and
  dicts. Python's \<open>int\<close> and \<open>float\<close> are both modelled by \<open>real\<close>: no rounding, no
  overflow, and no \<open>inf\<close> or \<open>nan\<close>. A dict value is the list of its items; a string
  is the list of its characters (for a text outside ASCII, the bytes of its UTF-8
  encoding, which keeps equality and order of strings).
\<close>

datatype pyval =
    PNone
  | PBool bool
  | PNum real
  | PStr string
  | PList "pyval list"
  | PDict "(string \<times> pyval) list"

type_synonym pydict = "string \<rightharpoonup> pyval"

text \<open>
  \<open>str(v)\<close>. The text of a number, a list or a dict is not modelled: it is the
  parameter \<open>repr\<close>, and every result below holds for every \<open>repr\<close>.
\<close>

definition py_str :: "(pyval \<Rightarrow> string) \<Rightarrow> pyval \<Rightarrow> string" where
  "py_str repr v =
     (case v of
        PStr s \<Rightarrow> s
      | PNone \<Rightarrow> ''None''
      | PBool b \<Rightarrow> (if b then ''True'' else ''False'')
      | _ \<Rightarrow> repr v)"

text \<open>\<open>bool(v)\<close>.\<close>

definition truthy :: "pyval \<Rightarrow> bool" where
  "truthy v =
     (case v of
        PNone \<Rightarrow> False
      | PBool b \<Rightarrow> b
      | PNum r \<Rightarrow> r \<noteq> 0
      | PStr s \<Rightarrow> s \<noteq> []
      | PList xs \<Rightarrow> xs \<noteq> []
      | PDict kvs \<Rightarrow> kvs \<noteq> [])"

text \<open>\<open>d.get(k, default)\<close>.\<close>

definition dict_get :: "pydict \<Rightarrow> string \<Rightarrow> pyval \<Rightarrow> pyval" where
  "dict_get d k dflt = (case d k of None \<Rightarrow> dflt | Some v \<Rightarrow> v)"

subsection \<open>String methods\<close>

definition is_space :: "char \<Rightarrow> bool" where
  "is_space c = (c \<in> set [CHR '' '', CHR 0x09, CHR 0x0A, CHR 0x0B, CHR 0x0C, CHR 0x0D,
                            CHR 0x1C, CHR 0x1D, CHR 0x1E, CHR 0x1F])"

definition strip :: "string \<Rightarrow> string" where
  "strip s = rev (dropWhile is_space (rev (dropWhile is_space s)))"

text \<open>\<open>s.replace(c, "")\<close> for a one-character \<open>c\<close>.\<close>

definition remove_char :: "char \<Rightarrow> string \<Rightarrow> string" where
  "remove_char c s = filter (\<lambda>x. x \<noteq> c) s"

text \<open>\<open>s.lstrip(c)\<close> for a one-character \<open>c\<close>.\<close>

definition lstrip_char :: "char \<Rightarrow> string \<Rightarrow> string" where
  "lstrip_char c s = dropWhile (\<lambda>x. x = c) s"

text \<open>\<open>s or "0"\<close>.\<close>

definition or_zero :: "string \<Rightarrow> string" where
  "or_zero s = (if s = [] then ''0'' else s)"

subsection \<open>\<open>float(s)\<close> on a string\<close>

text \<open>
  Python's grammar for the argument of \<open>float\<close>, after stripping whitespace:
  \<^verbatim>\<open>[sign] ([digitpart] "." digitpart | digitpart ["."]) [("e"|"E") [sign] digitpart]\<close>
  with \<^verbatim>\<open>digitpart ::= digit (["_"] digit)*\<close>. The result is \<open>None\<close> where \<open>float\<close>
  raises \<open>ValueError\<close>. The literals \<open>inf\<close>, \<open>infinity\<close> and \<open>nan\<close>, which \<open>float\<close>
  accepts too, denote no real number and are outside this model, as are digits
  outside ASCII.
\<close>

definition is_digit :: "char \<Rightarrow> bool" where
  "is_digit c = (c \<in> set ''0123456789'')"

definition digit_val :: "char \<Rightarrow> nat" where
  "digit_val c = of_char c - 48"

definition digits_val :: "string \<Rightarrow> nat" where
  "digits_val s = foldl (\<lambda>a c. 10 * a + digit_val c) 0 (filter is_digit s)"

fun digitpart_ok :: "string \<Rightarrow> bool" where
  "digitpart_ok [] = False"
| "digitpart_ok [c] = is_digit c"
| "digitpart_ok (c # d # cs) =
     (is_digit c \<and> (if d = CHR ''_'' then digitpart_ok cs else digitpart_ok (d # cs)))"

definition is_dp :: "char \<Rightarrow> bool" where
  "is_dp c = (is_digit c \<or> c = CHR ''_'')"

fun take_sign :: "string \<Rightarrow> real \<times> string" where
  "take_sign [] = (1, [])"
| "take_sign (c # cs) =
     (if c = CHR ''-'' then (- 1, cs) else if c = CHR ''+'' then (1, cs) else (1, c # cs))"

definition mantissa :: "string \<Rightarrow> string \<Rightarrow> real" where
  "mantissa ip fp =
     real (digits_val ip) + real (digits_val fp) / 10 ^ length (filter is_digit fp)"

definition parse_number :: "string \<Rightarrow> (real \<times> string) option" where
  "parse_number s =
     (let ip = takeWhile is_dp s; r1 = dropWhile is_dp s in
      case r1 of
        [] \<Rightarrow> if digitpart_ok ip then Some (mantissa ip [], []) else None
      | c # r2 \<Rightarrow>
          if c = CHR ''.'' then
            (let fp = takeWhile is_dp r2; r3 = dropWhile is_dp r2 in
             if (ip = [] \<or> digitpart_ok ip) \<and> (fp = [] \<or> digitpart_ok fp)
                \<and> \<not> (ip = [] \<and> fp = [])
             then Some (mantissa ip fp, r3) else None)
          else if digitpart_ok ip then Some (mantissa ip [], r1) else None)"

text \<open>The exponent part: the power of ten to scale by, \<open>None\<close> when it is malformed.\<close>

definition parse_exponent :: "string \<Rightarrow> real option" where
  "parse_exponent s =
     (case s of
        [] \<Rightarrow> Some 1
      | c # cs \<Rightarrow>
          if c = CHR ''e'' \<or> c = CHR ''E'' then
            (case take_sign cs of (sg, ds) \<Rightarrow>
               if digitpart_ok ds
               then Some (if sg < 0 then 1 / 10 ^ digits_val ds else 10 ^ digits_val ds)
               else None)
          else None)"

definition py_float :: "string \<Rightarrow> real option" where
  "py_float s =
     (case take_sign (strip s) of (sg, u) \<Rightarrow>
        (case parse_number u of
           None \<Rightarrow> None
         | Some (m, rest) \<Rightarrow>
             (case parse_exponent rest of
                None \<Rightarrow> None
              | Some p \<Rightarrow> Some (sg * (m * p)))))"

section \<open>Numeric coercion\<close>

text \<open>
  The first line of every coercion on a string:
  \<^verbatim>\<open>s = str(v).strip().replace(",", "").replace(" ", "")\<close>.
\<close>

definition num_text :: "string \<Rightarrow> string" where
  "num_text s = remove_char (CHR '' '') (remove_char (CHR '','') (strip s))"

text \<open>
  \<open>candle_keys._abs_num\<close>. The local \<open>neg\<close> of the source is computed and never read.
  \<open>digits_text_ck\<close> is the text handed to \<open>float\<close>:
  \<^verbatim>\<open>s.replace("-", "").replace("+", "").lstrip("0") or "0"\<close>.
\<close>

definition digits_text_ck :: "string \<Rightarrow> string" where
  "digits_text_ck s =
     or_zero (lstrip_char (CHR ''0'') (remove_char (CHR ''+'') (remove_char (CHR ''-'') s)))"


text \<open>
  \<open>perf_real_main._to_num\<close>: the \<open>while s.startswith("-")\<close> loop flips the sign once for
  each leading minus; \<open>digits_text_main\<close> is the text handed to \<open>float\<close>:
  \<^verbatim>\<open>s.lstrip("+").lstrip("0") or "0"\<close>.
\<close>

fun lead_minus :: "real \<Rightarrow> string \<Rightarrow> real \<times> string" where
  "lead_minus sign [] = (sign, [])"
| "lead_minus sign (c # cs) =
     (if c = CHR ''-'' then lead_minus (sign * (- 1)) cs else (sign, c # cs))"

definition digits_text_main :: "string \<Rightarrow> string" where
  "digits_text_main s = or_zero (lstrip_char (CHR ''0'') (lstrip_char (CHR ''+'') s))"

definition to_num_main :: "(pyval \<Rightarrow> string) \<Rightarrow> pyval \<Rightarrow> real" where
  "to_num_main repr v =
     (case v of
        PNone \<Rightarrow> 0
      | PBool b \<Rightarrow> (if b then 1 else 0)
      | PNum r \<Rightarrow> r
      | _ \<Rightarrow>
          (let s = num_text (py_str repr v) in
           if s = [] then 0
           else
             (case lead_minus 1 s of (sign, s1) \<Rightarrow>
                (case py_float (digits_text_main s1) of None \<Rightarrow> 0 | Some x \<Rightarrow> x * sign))))"

definition abs_num_main :: "(pyval \<Rightarrow> string) \<Rightarrow> pyval \<Rightarrow> real" where
  "abs_num_main repr v = \<bar>to_num_main repr v\<bar>"

section \<open>Symbol state and the score engine\<close>

text \<open>
  A symbol state is the dict the adapter builds for each instrument
  (\<open>_load_stocks_by_codes\<close>, \<open>_bootstrap_universe\<close>): always with the keys below, the
  key \<open>_placeholder\<close> being present (and true) on placeholder rows only.
\<close>

record stock =
  code :: string
  name :: string
  sector :: string
  base_price :: real
  open_price :: real
  price :: real
  prev_close :: real
  high :: real
  low :: real
  volume_acc :: real
  tick_count :: int
  avg5d :: real
  prev_d :: real
  tes :: real
  ucs :: real
  frs :: real
  hms :: real
  bms :: real
  sls :: real
  axes :: int
  candle_idx :: int
  placeholder :: bool

text \<open>\<open>x or d\<close> on a number: the default replaces a zero.\<close>

definition or_num :: "real \<Rightarrow> real \<Rightarrow> real" where
  "or_num x d = (if x = 0 then d else x)"

text \<open>The number of axis scores at or above 0.4, as the three \<open>if\<close> statements count it.\<close>

definition count_axes :: "real \<Rightarrow> real \<Rightarrow> real \<Rightarrow> int" where
  "count_axes h b l =
     (if h \<ge> 0.4 then 1 else 0) + (if b \<ge> 0.4 then 1 else 0) + (if l \<ge> 0.4 then 1 else 0)"

text \<open>\<open>strategy.recompute_scores\<close>; \<open>diff\<close> and the local \<open>pd\<close> are never read.\<close>

definition recompute_scores :: "stock \<Rightarrow> real \<Rightarrow> real \<Rightarrow> real \<Rightarrow> stock" where
  "recompute_scores s rate0 diff intensity =
     (let p = \<bar>or_num (price s) 0\<bar>;
          op = \<bar>or_num (open_price s) 0\<bar>;
          rate = (if rate0 = 0 \<and> op > 0 \<and> p > 0 then (p - op) / op * 100 else rate0);
          abs_rate = \<bar>rate\<bar>;
          vol = \<bar>or_num (volume_acc s) 0\<bar>;
          a5 = max 1 \<bar>or_num (avg5d s) 1000\<bar>;
          tc = max 1 \<bar>or_num (real_of_int (tick_count s)) 1\<bar>;
          vr = (if a5 > 0 then vol / a5 else 0);
          tes' = max 0 (min 3 (abs_rate / 2.5 + intensity / 200
                   + min (tc / (a5 * 0.0385)) 1 * 0.5));
          hms' = max 0 (min 1 ((rate / 10 + 0.5) * 0.6 + min vr 1 * 0.4));
          bms' = max 0 (min 1 (abs_rate / 5 * 0.5 + min (intensity / 120) 1 * 0.5));
          sls' = max 0 (min 1 (min 1 (vol / 5000000) * 0.7 + min vr 1 * 0.3));
          ucs' = max 0 (min 1 (hms' * 0.4 + bms' * 0.35 + sls' * 0.25));
          frs' = max 0 (min 2.5 (tes' * 0.5 + ucs' * 1
                   + min (tc / (a5 * 0.0385)) 1.5 * 0.3))
      in s\<lparr>tes := tes', hms := hms', bms := bms', sls := sls', ucs := ucs', frs := frs',
            axes := count_axes hms' bms' sls'\<rparr>)"

text \<open>
  \<open>perf_real_claude.RealDataSimulator._recompute_scores\<close>: the same formulas on
  \<open>_to_num\<close> of the fields (the number itself, no absolute value and no \<open>or\<close>
  default); \<open>diff\<close> and \<open>prev_d\<close> are never read.
\<close>

definition recompute_scores_claude :: "stock \<Rightarrow> real \<Rightarrow> real \<Rightarrow> real \<Rightarrow> stock" where
  "recompute_scores_claude s rate0 diff intensity =
     (let price' = price s;
          open_p = open_price s;
          rate = (if rate0 = 0 \<and> open_p > 0 \<and> price' > 0
                  then (price' - open_p) / open_p * 100 else rate0);
          abs_rate = \<bar>rate\<bar>;
          vol_acc = volume_acc s;
          avg5d' = max 1 (avg5d s);
          tc = max 1 (real_of_int (tick_count s));
          vol_ratio = (if avg5d' > 0 then vol_acc / avg5d' else 0);
          tes' = max 0 (min 3 (abs_rate / 2.5 + intensity / 200
                   + min (tc / (avg5d' * 0.0385)) 1 * 0.5));
          hms' = max 0 (min 1 ((rate / 10 + 0.5) * 0.6 + min vol_ratio 1 * 0.4));
          bms' = max 0 (min 1 (abs_rate / 5 * 0.5 + min (intensity / 120) 1 * 0.5));
          sls' = max 0 (min 1 (min 1 (vol_acc / 5000000) * 0.7 + min vol_ratio 1 * 0.3));
          ucs' = max 0 (min 1 (hms' * 0.4 + bms' * 0.35 + sls' * 0.25));
          frs' = max 0 (min 2.5 (tes' * 0.5 + ucs' * 1
                   + min (tc / (avg5d' * 0.0385)) 1.5 * 0.3))
      in s\<lparr>tes := tes', hms := hms', bms := bms', sls := sls', ucs := ucs', frs := frs',
            axes := count_axes hms' bms' sls'\<rparr>)"

text \<open>The bounds of the derived scores, on a symbol state.\<close>

definition scores_bounded :: "stock \<Rightarrow> bool" where
  "scores_bounded s =
     (0 \<le> tes s \<and> tes s \<le> 3 \<and> 0 \<le> frs s \<and> frs s \<le> 2.5 \<and>
      0 \<le> ucs s \<and> ucs s \<le> 1 \<and> 0 \<le> hms s \<and> hms s \<le> 1 \<and>
      0 \<le> bms s \<and> bms s \<le> 1 \<and> 0 \<le> sls s \<and> sls s \<le> 1 \<and>
      axes s = int (length (filter (\<lambda>x. 0.4 \<le> x) [hms s, bms s, sls s])))"

section \<open>Candle schema detection (\<open>candle_keys.CandleKeyMap\<close>)\<close>

text \<open>The broker's Korean field names, as the bytes of their UTF-8 encoding.\<close>

definition K_TIME :: string where
  "K_TIME = [CHR 0xEC, CHR 0xB2, CHR 0xB4, CHR 0xEA, CHR 0xB2, CHR 0xB0,
             CHR 0xEC, CHR 0x8B, CHR 0x9C, CHR 0xEA, CHR 0xB0, CHR 0x84]"

definition K_DATE :: string where
  "K_DATE = [CHR 0xEC, CHR 0x9D, CHR 0xBC, CHR 0xEC, CHR 0x9E, CHR 0x90]"

definition K_OPEN :: string where
  "K_OPEN = [CHR 0xEC, CHR 0x8B, CHR 0x9C, CHR 0xEA, CHR 0xB0, CHR 0x80]"

definition K_HIGH :: string where
  "K_HIGH = [CHR 0xEA, CHR 0xB3, CHR 0xA0, CHR 0xEA, CHR 0xB0, CHR 0x80]"

definition K_LOW :: string where
  "K_LOW = [CHR 0xEC, CHR 0xA0, CHR 0x80, CHR 0xEA, CHR 0xB0, CHR 0x80]"

definition K_CLOSE :: string where
  "K_CLOSE = [CHR 0xED, CHR 0x98, CHR 0x84, CHR 0xEC, CHR 0x9E, CHR 0xAC,
              CHR 0xEA, CHR 0xB0, CHR 0x80]"

definition K_CLOSE_ALT :: string where
  "K_CLOSE_ALT = [CHR 0xEC, CHR 0xA2, CHR 0x85, CHR 0xEA, CHR 0xB0, CHR 0x80]"

definition K_VOL :: string where
  "K_VOL = [CHR 0xEA, CHR 0xB1, CHR 0xB0, CHR 0xEB, CHR 0x9E, CHR 0x98,
            CHR 0xEB, CHR 0x9F, CHR 0x89]"

definition CANDIDATES :: "(string \<times> string list) list" where
  "CANDIDATES =
     [(''time'', [''time'', ''date'', ''t'', ''timestamp'', K_TIME, K_DATE, ''Date'', ''Time'']),
      (''open'', [''open'', ''o'', ''Open'', K_OPEN, ''start_price'', ''OPEN'']),
      (''high'', [''high'', ''h'', ''High'', K_HIGH, ''max_price'', ''HIGH'']),
      (''low'', [''low'', ''l'', ''Low'', K_LOW, ''min_price'', ''LOW'']),
      (''close'', [''close'', ''c'', ''Close'', K_CLOSE, K_CLOSE_ALT, ''last_price'', ''CLOSE'']),
      (''volume'', [''volume'', ''v'', ''Volume'', ''vol'', K_VOL, ''cumVolume'', ''VOL'',
                    ''VOLUME''])]"

text \<open>\<open>v in (None, "", " ")\<close> and \<open>v in (None, "")\<close>.\<close>

definition blank3 :: "pyval \<Rightarrow> bool" where
  "blank3 v = (v = PNone \<or> v = PStr [] \<or> v = PStr '' '')"

definition blank2 :: "pyval \<Rightarrow> bool" where
  "blank2 v = (v = PNone \<or> v = PStr [])"

record CandleKeyMap =
  resolved :: "string \<rightharpoonup> string"
  locked :: bool

definition CandleKeyMap_init :: CandleKeyMap where
  "CandleKeyMap_init = \<lparr>resolved = Map.empty, locked = False\<rparr>"

text \<open>The inner loop of \<open>detect\<close>: the first candidate that the sample holds a usable value for.\<close>

definition first_cand :: "pydict \<Rightarrow> string list \<Rightarrow> string option" where
  "first_cand sample cands =
     find (\<lambda>c. case sample c of None \<Rightarrow> False | Some v \<Rightarrow> \<not> blank3 v) cands"

text \<open>The outer loop of \<open>detect\<close>, building the dict \<open>found\<close>.\<close>

definition detect_found :: "pydict \<Rightarrow> (string \<rightharpoonup> string)" where
  "detect_found sample =
     fold (\<lambda>(role, cands) found.
             case first_cand sample cands of None \<Rightarrow> found | Some c \<Rightarrow> found(role \<mapsto> c))
          CANDIDATES Map.empty"

definition detect :: "CandleKeyMap \<Rightarrow> pydict \<Rightarrow> bool \<times> CandleKeyMap" where
  "detect km sample =
     (if locked km then (True, km)
      else
        (let found = detect_found sample in
         if found ''close'' = None then (False, km)
         else (True, km\<lparr>resolved := found, locked := True\<rparr>)))"

text \<open>A sequence of \<open>detect\<close> calls on one key map: the results and the final map.\<close>

fun detect_all :: "CandleKeyMap \<Rightarrow> pydict list \<Rightarrow> bool list \<times> CandleKeyMap" where
  "detect_all km [] = ([], km)"
| "detect_all km (sample # rest) =
     (case detect km sample of (r, km1) \<Rightarrow>
        (case detect_all km1 rest of (rs, km2) \<Rightarrow> (r # rs, km2)))"

text \<open>A candle bar: the dict with keys \<open>t\<close>, \<open>o\<close>, \<open>h\<close>, \<open>l\<close>, \<open>c\<close>, \<open>v\<close>.\<close>

record bar =
  bar_t :: string
  bar_o :: real
  bar_h :: real
  bar_l :: real
  bar_c :: real
  bar_v :: real





section \<open>The adapter's own row parser (\<open>perf_real_claude\<close>)\<close>

text \<open>\<open>perf_real_claude._to_num\<close> and \<open>_abs_num\<close>.\<close>

definition sign_prefix_claude :: "string \<Rightarrow> real \<times> string" where
  "sign_prefix_claude s =
     (if take 2 s = ''--'' then (1, drop 2 s)
      else if take 1 s = ''-'' then (- 1, drop 1 s)
      else if take 1 s = ''+'' then (1, drop 1 s)
      else (1, s))"

definition to_num_claude :: "(pyval \<Rightarrow> string) \<Rightarrow> pyval \<Rightarrow> real" where
  "to_num_claude repr v =
     (case v of
        PNone \<Rightarrow> 0
      | PBool b \<Rightarrow> (if b then 1 else 0)
      | PNum r \<Rightarrow> r
      | _ \<Rightarrow>
          (let s = num_text (py_str repr v) in
           if s = [] then 0
           else
             (case sign_prefix_claude s of (sign, s1) \<Rightarrow>
                (case py_float (or_zero (lstrip_char (CHR ''0'') s1)) of
                   None \<Rightarrow> 0
                 | Some x \<Rightarrow> x * sign))))"

definition abs_num_claude :: "(pyval \<Rightarrow> string) \<Rightarrow> pyval \<Rightarrow> real" where
  "abs_num_claude repr v = \<bar>to_num_claude repr v\<bar>"

text \<open>\<open>_coalesce(d, keys, default)\<close>.\<close>

definition coalesce :: "pydict \<Rightarrow> string list \<Rightarrow> pyval \<Rightarrow> pyval" where
  "coalesce d keys dflt =
     (case find (\<lambda>k. case d k of None \<Rightarrow> False | Some v \<Rightarrow> \<not> blank2 v) keys of
        None \<Rightarrow> dflt
      | Some k \<Rightarrow> dict_get d k dflt)"





section \<open>The adapter (\<open>RealDataSimulator\<close>)\<close>

text \<open>
  The symbol-state dicts are shared objects: \<open>self.stocks\<close> and
  \<open>self._stock_by_code\<close> hold references to the same dicts, and a handler that
  updates one through \<open>_stock_by_code\<close> changes what \<open>stocks\<close> shows. The model keeps
  the objects in a store (\<open>heap\<close>, from address to symbol state) and both containers
  hold addresses; \<open>next_addr\<close> is the first address not yet used. Fields of the source
  with a leading underscore carry the prefix \<open>p_\<close>; \<open>n_max\<close> is \<open>self.n\<close>.
\<close>

record adapter =
  heap :: "nat \<Rightarrow> stock"
  next_addr :: nat
  n_max :: int
  stocks :: "nat list"
  p_stock_by_code :: "string \<rightharpoonup> nat"
  p_candles :: "string \<rightharpoonup> bar list"
  p_candle_idx :: "string \<rightharpoonup> nat"
  p_candle_req_queue :: "string list"
  p_candle_req_set :: "string set"
  p_candles_daily :: "string \<rightharpoonup> bar list"
  p_hist_metrics_done :: bool
  p_stress_candle_replay_idx :: "string \<rightharpoonup> nat"
  p_stress_batch :: int
  p_stress_cycle :: int
  p_rt_connected :: bool
  p_rt_subscribed :: bool
  p_rt_recv_count :: int
  p_rt_last_recv_ts :: real
  p_account_no :: string
  p_api_calls :: int
  p_api_errors :: int

text \<open>
  A message of the tick feed, \<open>{code, data: {...}}\<close>: \<open>ev_code\<close> is \<open>evt.get("code", "")\<close>
  and \<open>ev_data\<close> is \<open>evt.get("data", {}) or {}\<close>.
\<close>

record rt_event =
  ev_code :: pyval
  ev_data :: pydict

subsection \<open>\<open>perf_real_main\<close>\<close>

text \<open>\<open>_first_valid(d, keys, default)\<close>.\<close>

definition first_valid :: "pydict \<Rightarrow> string list \<Rightarrow> pyval \<Rightarrow> pyval" where
  "first_valid d keys dflt =
     (case find (\<lambda>k. case d k of None \<Rightarrow> False | Some v \<Rightarrow> \<not> blank3 v) keys of
        None \<Rightarrow> dflt
      | Some k \<Rightarrow> dict_get d k dflt)"

definition RT_PRICE_KEYS :: "string list" where
  "RT_PRICE_KEYS = [''current_price'', ''price'', K_CLOSE]"

definition RT_OPEN_KEYS :: "string list" where
  "RT_OPEN_KEYS = [''open'', K_OPEN]"

definition RT_HIGH_KEYS :: "string list" where
  "RT_HIGH_KEYS = [''high'', K_HIGH]"

definition RT_LOW_KEYS :: "string list" where
  "RT_LOW_KEYS = [''low'', K_LOW]"

definition RT_VOL_KEYS :: "string list" where
  "RT_VOL_KEYS = [''cum_volume'', ''volume'', K_VOL]"

definition RT_RATE_KEYS :: "string list" where
  "RT_RATE_KEYS = [''rate'', ''change_rate'']"

definition RT_DIFF_KEYS :: "string list" where
  "RT_DIFF_KEYS = [''diff'', ''change'']"

definition RT_INTEN_KEYS :: "string list" where
  "RT_INTEN_KEYS = [''intensity'']"

text \<open>
  The updates of \<open>perf_real_main._on_realtime\<close> on the symbol state, from
  \<open>if price > 0\<close> to \<open>s["tick_count"] += 1\<close>.
\<close>

definition apply_tick_main ::
  "stock \<Rightarrow> real \<Rightarrow> real \<Rightarrow> real \<Rightarrow> real \<Rightarrow> real \<Rightarrow> real \<Rightarrow> real \<Rightarrow> real \<Rightarrow> stock" where
  "apply_tick_main s pr op hi lo vol rate diff inten =
     (let s1 = (if pr > 0 then s\<lparr>price := pr\<rparr> else s);
          s2 = (if op > 0 then s1\<lparr>open_price := op\<rparr> else s1);
          s3 = (if hi > 0 then s2\<lparr>high := max (high s2) hi\<rparr> else s2);
          s4 = (if lo > 0
                then s3\<lparr>low := (if low s3 > 0 then min (low s3) lo else lo)\<rparr> else s3);
          s5 = (if vol > 0 then s4\<lparr>volume_acc := vol\<rparr> else s4);
          s6 = recompute_scores s5 rate diff inten
      in s6\<lparr>tick_count := tick_count s6 + 1\<rparr>)"

text \<open>\<open>perf_real_main.RealDataSimulator._on_realtime\<close>; \<open>now\<close> is \<open>time.time()\<close>.\<close>

definition on_realtime_main :: "(pyval \<Rightarrow> string) \<Rightarrow> real \<Rightarrow> adapter \<Rightarrow> rt_event \<Rightarrow> adapter" where
  "on_realtime_main repr now a evt =
     (let cd = strip (py_str repr (ev_code evt)); data = ev_data evt in
      if cd = [] then a
      else
        (case p_stock_by_code a cd of
           None \<Rightarrow> a
         | Some r \<Rightarrow>
             (let pr = abs_num_main repr (first_valid data RT_PRICE_KEYS (PNum 0));
                  op = abs_num_main repr (first_valid data RT_OPEN_KEYS (PNum 0));
                  hi = abs_num_main repr (first_valid data RT_HIGH_KEYS (PNum 0));
                  lo = abs_num_main repr (first_valid data RT_LOW_KEYS (PNum 0));
                  vol = abs_num_main repr (first_valid data RT_VOL_KEYS (PNum 0));
                  rate = to_num_main repr (first_valid data RT_RATE_KEYS (PNum 0));
                  diff = to_num_main repr (first_valid data RT_DIFF_KEYS (PNum 0));
                  inten = abs_num_main repr (first_valid data RT_INTEN_KEYS (PNum 0))
              in a\<lparr>heap := (heap a)(r := apply_tick_main (heap a r) pr op hi lo vol rate diff inten),
                   p_rt_recv_count := p_rt_recv_count a + 1,
                   p_rt_last_recv_ts := now\<rparr>)))"

subsection \<open>\<open>perf_real\<close>\<close>

text \<open>\<open>perf_real._to_num\<close>: the sign is read from the first character only.\<close>

definition to_num_real :: "(pyval \<Rightarrow> string) \<Rightarrow> pyval \<Rightarrow> real" where
  "to_num_real repr v =
     (case v of
        PNone \<Rightarrow> 0
      | PBool b \<Rightarrow> (if b then 1 else 0)
      | PNum r \<Rightarrow> r
      | _ \<Rightarrow>
          (let s = remove_char (CHR '','') (strip (py_str repr v)) in
           if s = [] then 0
           else
             (let sign = (if take 1 s = ''-'' then - 1 else 1);
                  s' = remove_char (CHR ''-'') (remove_char (CHR ''+'') s)
              in case py_float s' of None \<Rightarrow> 0 | Some x \<Rightarrow> x * sign)))"

text \<open>
  The updates of \<open>perf_real._on_realtime\<close> on the symbol state, from \<open>if price > 0\<close>
  to \<open>s["tick_count"] += 1\<close>. This version computes the scores in place.
\<close>

definition apply_tick_real ::
  "stock \<Rightarrow> real \<Rightarrow> real \<Rightarrow> real \<Rightarrow> real \<Rightarrow> real \<Rightarrow> real \<Rightarrow> stock" where
  "apply_tick_real s pr op vol rate0 diff0 intensity =
     (let s1 = (if pr > 0 then s\<lparr>price := pr\<rparr> else s);
          s2 = (if op > 0 then s1\<lparr>open_price := op\<rparr> else s1);
          s3 = (if vol > 0 then s2\<lparr>volume_acc := vol\<rparr> else s2);
          rate = (if open_price s3 > 0 \<and> rate0 = 0 \<and> price s3 > 0
                  then (price s3 - open_price s3) / open_price s3 * 100 else rate0);
          diff = (if open_price s3 > 0 \<and> diff0 = 0 \<and> price s3 > 0
                  then price s3 - open_price s3 else diff0);
          abs_rate = \<bar>rate\<bar>;
          tes' = max 0 (min 3 (abs_rate / 2.5 + intensity / 200));
          ucs' = max 0 (min 1 (min 1 (abs_rate / 10) * 0.5 + min 1 (intensity / 150) * 0.5));
          frs' = max 0 (min 2.5 (1 + diff / max 1 (open_price s3) * 5 + ucs' * 0.3));
          hms' = max 0 (min 1 ucs');
          bms' = max 0 (min 1 (abs_rate / 5));
          sls' = max 0 (min 1 (min 1 (volume_acc s3 / 5000000)))
      in s3\<lparr>tes := tes', ucs := ucs', frs := frs', hms := hms', bms := bms', sls := sls',
             axes := count_axes hms' bms' sls', tick_count := tick_count s3 + 1\<rparr>)"

text \<open>\<open>perf_real.RealDataSimulator._on_realtime\<close>.\<close>

definition on_realtime_real :: "(pyval \<Rightarrow> string) \<Rightarrow> real \<Rightarrow> adapter \<Rightarrow> rt_event \<Rightarrow> adapter" where
  "on_realtime_real repr now a evt =
     (let cd = strip (py_str repr (ev_code evt)); data = ev_data evt in
      if cd = [] then a
      else
        (case p_stock_by_code a cd of
           None \<Rightarrow> a
         | Some r \<Rightarrow>
             (let s = heap a r;
                  pr = to_num_real repr (coalesce data [''current_price'', ''price'', K_CLOSE] (PNum 0));
                  op = to_num_real repr (coalesce data [''open'', K_OPEN] (PNum (open_price s)));
                  vol = to_num_real repr
                          (coalesce data [''cum_volume'', ''volume'', K_VOL] (PNum (volume_acc s)));
                  rate = to_num_real repr (coalesce data [''rate'', ''change_rate''] (PNum 0));
                  diff = to_num_real repr (coalesce data [''diff'', ''change''] (PNum 0));
                  intensity = to_num_real repr (coalesce data [''intensity''] (PNum 0))
              in a\<lparr>heap := (heap a)(r := apply_tick_real s pr op vol rate diff intensity),
                   p_rt_recv_count := p_rt_recv_count a + 1,
                   p_rt_last_recv_ts := now\<rparr>)))"

text \<open>The two tick messages of the scenario.\<close>

definition tick_msg1 :: "string \<Rightarrow> rt_event" where
  "tick_msg1 cd =
     \<lparr>ev_code = PStr cd, ev_data = [''current_price'' \<mapsto> PStr ''12,000'', ''rate'' \<mapsto> PNum 5]\<rparr>"

definition tick_msg2 :: "string \<Rightarrow> rt_event" where
  "tick_msg2 cd = \<lparr>ev_code = PStr cd, ev_data = [''current_price'' \<mapsto> PStr ''-11,000'']\<rparr>"

text \<open>
  The symbol state that \<open>_load_stocks_by_codes\<close> builds for a code, and the field
  values that \<open>__init__\<close> sets before the boot sequence (the capacity \<open>n\<close>, the stress
  batch and the clock being given).
\<close>

definition new_stock :: "string \<Rightarrow> string \<Rightarrow> real \<Rightarrow> stock" where
  "new_stock cd nm base =
     \<lparr>code = cd, name = nm, sector = ''UNKNOWN'', base_price = base, open_price = base,
      price = base, prev_close = base, high = base, low = base, volume_acc = 0,
      tick_count = 0, avg5d = 1000, prev_d = 1000, tes = 0, ucs = 0, frs = 0, hms = 0,
      bms = 0, sls = 0, axes = 0, candle_idx = 0, placeholder = False\<rparr>"

definition adapter_init :: "int \<Rightarrow> int \<Rightarrow> adapter" where
  "adapter_init n batch =
     \<lparr>heap = (\<lambda>_. new_stock [] [] 0), next_addr = 0, n_max = n, stocks = [],
      p_stock_by_code = Map.empty, p_candles = Map.empty, p_candle_idx = Map.empty,
      p_candle_req_queue = [], p_candle_req_set = {}, p_candles_daily = Map.empty,
      p_hist_metrics_done = False, p_stress_candle_replay_idx = Map.empty,
      p_stress_batch = batch, p_stress_cycle = 0, p_rt_connected = False,
      p_rt_subscribed = False, p_rt_recv_count = 0, p_rt_last_recv_ts = 0,
      p_account_no = [], p_api_calls = 0, p_api_errors = 0\<rparr>"

text \<open>An adapter that has loaded the single symbol 005930 at 10000.\<close>

definition one_symbol_adapter :: adapter where
  "one_symbol_adapter =
     (adapter_init 50 20)
       \<lparr>heap := (heap (adapter_init 50 20))(0 := new_stock ''005930'' ''005930'' 10000),
        next_addr := 1, stocks := [0], p_stock_by_code := [''005930'' \<mapsto> 0]\<rparr>"

section \<open>The dashboard snapshot (\<open>app_state.AppState\<close>)\<close>

text \<open>
  The fields of \<open>AppState\<close> that \<open>set_dashboard_snapshot\<close> touches. Calling the
  dashboard listeners is the effect of the method: \<open>emitted\<close> is the list of the payloads
  handed to \<open>_emit(self._dashboard_listeners, ...)\<close> so far, one entry for each call of
  \<open>_emit\<close>.
\<close>

record app_state =
  dashboard :: pydict
  holdings :: pyval
  outstanding :: pyval
  p_dashboard_signature :: string
  emitted :: "pydict list"

definition AppState_init :: app_state where
  "AppState_init =
     \<lparr>dashboard = Map.empty, holdings = PList [], outstanding = PList [],
      p_dashboard_signature = [], emitted = []\<rparr>"

definition raw_keys :: "string list" where
  "raw_keys = [''Holdings'', ''Outstanding'', ''RawBalance'', ''RawDeposit'', ''RawOutstanding'']"

text \<open>
  The loop over \<open>snapshot.items()\<close>: each key of the snapshot is visited once and only
  \<open>merged[key]\<close> is assigned, so the loop is the merge of two dicts key by key.
\<close>

definition merge_snapshot :: "pydict \<Rightarrow> pydict \<Rightarrow> pydict" where
  "merge_snapshot dash snapshot =
     (\<lambda>key. case snapshot key of
               None \<Rightarrow> dash key
             | Some v \<Rightarrow>
                 if key \<in> set raw_keys then (if v \<noteq> PNone then Some v else dash key)
                 else Some v)"

definition signature_target :: "pydict \<Rightarrow> pyval" where
  "signature_target merged =
     PDict
       [(''AccountNo'', dict_get merged ''AccountNo'' PNone),
        (''FetchedAt'', dict_get merged ''FetchedAt'' PNone),
        (''Totals'', PDict
           [(''TotalPurchase'', dict_get merged ''TotalPurchase'' PNone),
            (''TotalEvaluation'', dict_get merged ''TotalEvaluation'' PNone),
            (''TotalPnL'', dict_get merged ''TotalPnL'' PNone),
            (''TotalPnLRate'', dict_get merged ''TotalPnLRate'' PNone),
            (''RealizedPnL'', dict_get merged ''RealizedPnL'' PNone)]),
        (''Holdings'', dict_get merged ''Holdings'' PNone),
        (''Outstanding'', dict_get merged ''Outstanding'' PNone)]"

text \<open>\<open>x or []\<close>.\<close>

definition or_empty_list :: "pyval \<Rightarrow> pyval" where
  "or_empty_list v = (if truthy v then v else PList [])"

text \<open>
  \<open>AppState.set_dashboard_snapshot\<close>. \<open>dumps\<close> is
  \<open>json.dumps(_, sort_keys=True, ensure_ascii=False)\<close>, a parameter; \<open>copy.deepcopy\<close> is
  the identity on values.
\<close>

definition set_dashboard_snapshot ::
  "(pyval \<Rightarrow> string) \<Rightarrow> app_state \<Rightarrow> pydict \<Rightarrow> bool \<times> app_state" where
  "set_dashboard_snapshot dumps st snapshot =
     (if snapshot = Map.empty then (False, st)
      else
        (let merged = merge_snapshot (dashboard st) snapshot;
             new_signature = dumps (signature_target merged)
         in if new_signature = p_dashboard_signature st then (False, st)
            else
              (True,
               st\<lparr>dashboard := merged,
                  holdings := or_empty_list (dict_get merged ''Holdings'' PNone),
                  outstanding := or_empty_list (dict_get merged ''Outstanding'' PNone),
                  p_dashboard_signature := new_signature,
                  emitted := emitted st @ [merged]\<rparr>)))"

text \<open>
  Two snapshots have the same canonical content when they agree on the keys the
  signature is built from.
\<close>

definition signature_keys :: "string list" where
  "signature_keys =
     [''AccountNo'', ''FetchedAt'', ''TotalPurchase'', ''TotalEvaluation'', ''TotalPnL'',
      ''TotalPnLRate'', ''RealizedPnL'', ''Holdings'', ''Outstanding'']"

definition same_canonical :: "pydict \<Rightarrow> pydict \<Rightarrow> bool" where
  "same_canonical s1 s2 = list_all (\<lambda>k. s1 k = s2 k) signature_keys"

section \<open>HTTP with retries (\<open>perf_real_main._api_get\<close>)\<close>

datatype py_error = ValueError | AttributeError | TypeError | IndexError | KeyError

text \<open>
  What one call of \<open>_request_json\<close> does: it counts the call and then either returns the
  decoded body or raises an exception \<open>ex\<close>, given here by \<open>str(ex)\<close>. The network is
  the parameter \<open>req\<close>, the outcome of each attempt of one \<open>_api_get\<close>.
\<close>

datatype http_outcome = Raises string | Returns pyval

definition failure_result :: "string \<Rightarrow> pyval" where
  "failure_result msg =
     PDict [(''Success'', PBool False), (''Message'', PStr msg), (''Data'', PNone)]"

text \<open>The text of the \<open>ValueError\<close> that \<open>time.sleep\<close> raises on a negative duration.\<close>

definition sleep_error_text :: string where
  "sleep_error_text = ''sleep length must be non-negative''"

text \<open>
  The loop \<open>for attempt in range(3)\<close> of \<open>_api_get\<close>, on the attempts still to run.
  \<open>throttle\<close> is \<open>API_THROTTLE_SEC\<close>; the third component of the result lists the
  durations passed to \<open>time.sleep\<close>, in order. A negative duration makes \<open>time.sleep\<close>
  raise: inside the \<open>try\<close> this is caught like a failed request, inside the handler it
  leaves \<open>_api_get\<close> (\<open>Inl\<close>). When the loop runs out, the method returns \<open>None\<close>.
\<close>

fun api_get_loop ::
  "real \<Rightarrow> (nat \<Rightarrow> http_outcome) \<Rightarrow> nat list \<Rightarrow> adapter \<Rightarrow> real list
     \<Rightarrow> py_error + (pyval \<times> adapter \<times> real list)" where
  "api_get_loop throttle req [] a slept = Inr (PNone, a, slept)"
| "api_get_loop throttle req (attempt # rest) a slept =
     (let a1 = a\<lparr>p_api_calls := p_api_calls a + 1\<rparr>;
          tried = (case req attempt of
                     Returns result \<Rightarrow>
                       if throttle < 0 then Inl sleep_error_text else Inr result
                   | Raises msg \<Rightarrow> Inl msg)
      in case tried of
           Inr result \<Rightarrow> Inr (result, a1, slept @ [throttle])
         | Inl msg \<Rightarrow>
             (let a2 = a1\<lparr>p_api_errors := p_api_errors a1 + 1\<rparr> in
              if attempt < 2 then
                (if throttle * real (attempt + 2) < 0 then Inl ValueError
                 else api_get_loop throttle req rest a2
                        (slept @ [throttle * real (attempt + 2)]))
              else Inr (failure_result msg, a2, slept)))"

definition api_get ::
  "real \<Rightarrow> (nat \<Rightarrow> http_outcome) \<Rightarrow> adapter \<Rightarrow> py_error + (pyval \<times> adapter \<times> real list)" where
  "api_get throttle req a = api_get_loop throttle req [0, 1, 2] a []"

text \<open>
  \<open>_ok(r)\<close>, that is \<open>bool(r and r.get("Success"))\<close>: a falsy \<open>r\<close> gives false, and a
  truthy \<open>r\<close> that is not a dict has no \<open>get\<close>.
\<close>

definition ok :: "pyval \<Rightarrow> py_error + bool" where
  "ok r =
     (if \<not> truthy r then Inr False
      else (case r of
              PDict kvs \<Rightarrow> Inr (truthy (dict_get (map_of kvs) ''Success'' PNone))
            | _ \<Rightarrow> Inl AttributeError))"

section \<open>Stress replay (\<open>_run_stress_tick\<close>)\<close>

text \<open>\<open>xs[:b]\<close>: a negative bound counts from the end.\<close>

definition slice_to :: "int \<Rightarrow> 'a list \<Rightarrow> 'a list" where
  "slice_to b xs = (if 0 \<le> b then take (nat b) xs else take (length xs - nat (- b)) xs)"

text \<open>
  The updates of one replayed candle on the symbol state \<open>sr\<close>, from
  \<open>sr["price"] = candle["c"]\<close> to the call of the score engine. \<open>_to_num\<close> of the open
  price is the number itself. The score engine is the parameter \<open>rc\<close>, called with the
  rate only: \<open>strategy.recompute_scores\<close> in \<open>perf_real_main\<close>, \<open>self._recompute_scores\<close>
  in \<open>perf_real_claude\<close>; the two methods are otherwise the same text.
\<close>

definition apply_candle :: "(stock \<Rightarrow> real \<Rightarrow> stock) \<Rightarrow> stock \<Rightarrow> bar \<Rightarrow> stock" where
  "apply_candle rc sr candle =
     (let s1 = sr\<lparr>price := bar_c candle\<rparr>;
          s2 = (if bar_o candle > 0 then s1\<lparr>open_price := bar_o candle\<rparr> else s1);
          s3 = s2\<lparr>high := max (high s2) (bar_h candle)\<rparr>;
          s4 = s3\<lparr>low := (if low s3 > 0 then min (low s3) (bar_l candle) else bar_l candle)\<rparr>;
          s5 = s4\<lparr>volume_acc := volume_acc s4 + bar_v candle\<rparr>;
          s6 = s5\<lparr>tick_count := tick_count s5 + 1\<rparr>;
          op = open_price s6;
          rate = (if op > 0 then (bar_c candle - op) / op * 100 else 0)
      in rc s6 rate)"

text \<open>
  The index the replay reads for a code: the stored cursor, or 0 when there is none or
  when it is past the end of the series.
\<close>

definition replay_index :: "adapter \<Rightarrow> string \<Rightarrow> bar list \<Rightarrow> nat" where
  "replay_index a cd series =
     (let idx = (case p_stress_candle_replay_idx a cd of None \<Rightarrow> 0 | Some i \<Rightarrow> i) in
      if idx \<ge> length series then 0 else idx)"

text \<open>
  One turn of the loop \<open>for s in targets\<close>, for the target at address \<open>r\<close>. The index
  read is below the length of the series, which is not empty there.
\<close>

definition stress_step :: "(stock \<Rightarrow> real \<Rightarrow> stock) \<Rightarrow> nat \<Rightarrow> adapter \<Rightarrow> adapter" where
  "stress_step rc r a =
     (let cd = code (heap a r);
          series = (case p_candles a cd of None \<Rightarrow> [] | Some xs \<Rightarrow> xs)
      in if series = [] then a
         else
           (let idx = replay_index a cd series;
                candle = series ! idx;
                a1 = a\<lparr>p_stress_candle_replay_idx :=
                          (p_stress_candle_replay_idx a)(cd \<mapsto> idx + 1)\<rparr>
            in case p_stock_by_code a1 cd of
                 None \<Rightarrow> a1
               | Some r' \<Rightarrow> a1\<lparr>heap := (heap a1)(r' := apply_candle rc (heap a1 r') candle)\<rparr>))"

definition run_stress_tick :: "(stock \<Rightarrow> real \<Rightarrow> stock) \<Rightarrow> adapter \<Rightarrow> adapter" where
  "run_stress_tick rc a =
     fold (stress_step rc) (slice_to (p_stress_batch a) (stocks a))
       (a\<lparr>p_stress_cycle := p_stress_cycle a + 1\<rparr>)"

definition run_stress_tick_main :: "adapter \<Rightarrow> adapter" where
  "run_stress_tick_main = run_stress_tick (\<lambda>s rate. recompute_scores s rate 0 0)"

definition run_stress_tick_claude :: "adapter \<Rightarrow> adapter" where
  "run_stress_tick_claude = run_stress_tick (\<lambda>s rate. recompute_scores_claude s rate 0 0)"

text \<open>
  \<open>_stock_by_code\<close> is built as \<open>{s["code"]: s for s in stocks}\<close>: every code maps to a
  symbol state that carries this code.
\<close>

definition by_code_ok :: "adapter \<Rightarrow> bool" where
  "by_code_ok a = (\<forall>cd r. p_stock_by_code a cd = Some r \<longrightarrow> code (heap a r) = cd)"

text \<open>The codes of the symbols in the stress batch, in order.\<close>

definition batch_codes :: "adapter \<Rightarrow> string list" where
  "batch_codes a = map (\<lambda>r. code (heap a r)) (slice_to (p_stress_batch a) (stocks a))"

text \<open>
  What a replay tick leaves as it is, between two adapter states: the candle caches,
  the symbol list, the batch size, the code index and the code of every symbol state.
\<close>

definition same_frame :: "adapter \<Rightarrow> adapter \<Rightarrow> bool" where
  "same_frame a0 a =
     (p_candles a = p_candles a0 \<and> stocks a = stocks a0 \<and>
      p_stress_batch a = p_stress_batch a0 \<and> p_stock_by_code a = p_stock_by_code a0 \<and>
      (\<forall>x. code (heap a x) = code (heap a0 x)))"

text \<open>The adapter with the single symbol 005930 and a cache of two candles for it.\<close>

definition two_candles :: "bar list" where
  "two_candles =
     [\<lparr>bar_t = ''0900'', bar_o = 100, bar_h = 110, bar_l = 90, bar_c = 105, bar_v = 10\<rparr>,
      \<lparr>bar_t = ''0901'', bar_o = 105, bar_h = 106, bar_l = 94, bar_c = 95, bar_v = 20\<rparr>]"

definition two_candle_adapter :: adapter where
  "two_candle_adapter = one_symbol_adapter\<lparr>p_candles := [''005930'' \<mapsto> two_candles]\<rparr>"

section \<open>The chart cursor (\<open>generate_candle\<close>)\<close>

text \<open>
  The subscript \<open>xs[i]\<close> on a list, for an integer \<open>i\<close>: positions 0 to len - 1 are
  read directly, positions -len to -1 are read from the back, and every other position
  raises.
\<close>

definition list_get :: "'a list \<Rightarrow> int \<Rightarrow> py_error + 'a" where
  "list_get xs i =
     (if 0 \<le> i \<and> i < int (length xs) then Inr (xs ! nat i)
      else if i < 0 \<and> - int (length xs) \<le> i then Inr (xs ! nat (int (length xs) + i))
      else Inl IndexError)"

text \<open>\<open>_enqueue_candle_fetch\<close>, on a code that is a string.\<close>

definition enqueue_candle_fetch :: "string \<Rightarrow> adapter \<Rightarrow> adapter" where
  "enqueue_candle_fetch cd0 a =
     (let cd = strip cd0 in
      if cd = [] then a
      else if cd \<in> p_candle_req_set a then a
      else a\<lparr>p_candle_req_set := insert cd (p_candle_req_set a),
             p_candle_req_queue := p_candle_req_queue a @ [cd]\<rparr>)"

text \<open>
  The method exists in three versions of the adapter, which differ in two places:
  only \<open>perf_real_main\<close> returns zeros for a placeholder row, and only \<open>perf_real\<close>
  reports the cumulative volume in the flat bar.
\<close>

datatype version = PerfMain | PerfClaude | PerfReal

type_synonym candle_tuple = "real \<times> real \<times> real \<times> real \<times> real \<times> int"

definition zero_tuple :: candle_tuple where
  "zero_tuple = (0, 0, 0, 0, 0, 0)"

text \<open>The block \<open>if code not in self._candles\<close>.\<close>

definition ensure_cache :: "string \<Rightarrow> adapter \<Rightarrow> adapter" where
  "ensure_cache cd a =
     (if p_candles a cd = None
      then (let a1 = enqueue_candle_fetch cd a
            in a1\<lparr>p_candles := (p_candles a1)(cd \<mapsto> []),
                  p_candle_idx := (p_candle_idx a1)(cd \<mapsto> 0)\<rparr>)
      else a)"

text \<open>The block \<open>if not series\<close>: a flat bar at the current price of the state at \<open>r\<close>.\<close>

definition flat_bar :: "version \<Rightarrow> nat \<Rightarrow> adapter \<Rightarrow> candle_tuple \<times> adapter" where
  "flat_bar v r a =
     (let s = heap a r;
          p = price s;
          ci = candle_idx s + 1;
          vol = (if v = PerfReal then max 0 (volume_acc s) else 0)
      in ((p, p, p, p, vol, ci), a\<lparr>heap := (heap a)(r := s\<lparr>candle_idx := ci\<rparr>)\<rparr>))"

text \<open>
  The block \<open>if i >= len(series)\<close>: off-market the cursor goes back by up to 120
  candles, otherwise it stays on the last one.
\<close>

definition rewind :: "bool \<Rightarrow> string \<Rightarrow> bar list \<Rightarrow> nat \<Rightarrow> adapter \<Rightarrow> nat \<times> adapter" where
  "rewind market_open cd series i a =
     (if i \<ge> length series then
        (if \<not> market_open \<and> length series > 1 then
           (let j = nat (max 0 (int (length series) - min 120 (int (length series))))
            in (j, a\<lparr>p_candle_idx := (p_candle_idx a)(cd \<mapsto> j + 1)\<rparr>))
         else (length series - 1, a))
      else (i, a))"

text \<open>The last block, from \<open>row = series[i]\<close> to the return.\<close>

definition emit_row ::
  "string \<Rightarrow> nat \<Rightarrow> bar list \<Rightarrow> nat \<Rightarrow> adapter \<Rightarrow> py_error + (candle_tuple \<times> adapter)" where
  "emit_row cd r series i a =
     (case list_get series (int i) of
        Inl e \<Rightarrow> Inl e
      | Inr row \<Rightarrow>
          (let a1 = (if int i < int (length series) - 1
                     then a\<lparr>p_candle_idx := (p_candle_idx a)(cd \<mapsto> i + 1)\<rparr> else a);
               s = heap a1 r;
               s' = s\<lparr>price := bar_c row, candle_idx := candle_idx s + 1\<rparr>
           in Inr ((bar_o row, bar_h row, bar_l row, bar_c row, bar_v row, candle_idx s'),
                   a1\<lparr>heap := (heap a1)(r := s')\<rparr>)))"

text \<open>
  \<open>RealDataSimulator.generate_candle\<close>; \<open>market_open\<close> is the result of
  \<open>self._is_market_open()\<close>.
\<close>

definition generate_candle ::
  "version \<Rightarrow> bool \<Rightarrow> adapter \<Rightarrow> int \<Rightarrow> py_error + (candle_tuple \<times> adapter)" where
  "generate_candle v market_open a stock_idx =
     (if stocks a = [] then Inr (zero_tuple, a)
      else
        (case list_get (stocks a) (max 0 (min stock_idx (int (length (stocks a)) - 1))) of
           Inl e \<Rightarrow> Inl e
         | Inr r \<Rightarrow>
             if v = PerfMain \<and> placeholder (heap a r) then Inr (zero_tuple, a)
             else
               (let cd = code (heap a r);
                    a1 = ensure_cache cd a;
                    series = (case p_candles a1 cd of None \<Rightarrow> [] | Some xs \<Rightarrow> xs);
                    i = (case p_candle_idx a1 cd of None \<Rightarrow> 0 | Some j \<Rightarrow> j)
                in if series = [] then Inr (flat_bar v r a1)
                   else (case rewind market_open cd series i a1 of
                           (i', a2) \<Rightarrow> emit_row cd r series i' a2))))"

text \<open>The index that \<open>generate_candle\<close> reads \<open>self.stocks\<close> at.\<close>

definition clamp_index :: "adapter \<Rightarrow> int \<Rightarrow> nat" where
  "clamp_index a stock_idx = nat (max 0 (min stock_idx (int (length (stocks a)) - 1)))"

text \<open>
  The rows that \<open>_bootstrap_universe\<close> of \<open>perf_real_main\<close> inserts while no universe
  is loaded (in the dict literal the later \<open>prev_close\<close>, \<open>high\<close> and \<open>low\<close> win), and
  the adapter holding the five of them.
\<close>

definition placeholder_stock :: "nat \<Rightarrow> stock" where
  "placeholder_stock i =
     \<lparr>code = ''00000'' @ [char_of (48 + i)],
      name = [CHR 0xEB, CHR 0x8C, CHR 0x80, CHR 0xEA, CHR 0xB8, CHR 0xB0, CHR 0xEC, CHR 0xA4,
              CHR 0x91, CHR 0x20, CHR 0x23] @ [char_of (49 + i)],
      sector = ''NONE'', base_price = 1, open_price = 1, price = 1, prev_close = 0, high = 0,
      low = 0, volume_acc = 0, tick_count = 0, avg5d = 1, prev_d = 1, tes = 0, ucs = 0,
      frs = 0, hms = 0, bms = 0, sls = 0, axes = 0, candle_idx = 0, placeholder = True\<rparr>"

definition placeholder_adapter :: adapter where
  "placeholder_adapter =
     (adapter_init 50 20)
       \<lparr>heap := placeholder_stock, next_addr := 5, stocks := [0, 1, 2, 3, 4],
        p_stock_by_code := (\<lambda>cd. find (\<lambda>i. code (placeholder_stock i) = cd) [0, 1, 2, 3, 4])\<rparr>"

section \<open>Universe selection (\<open>execute_condition\<close>)\<close>

definition K_CODE :: string where
  "K_CODE = [CHR 0xEC, CHR 0xA2, CHR 0x85, CHR 0xEB, CHR 0xAA, CHR 0xA9,
             CHR 0xEC, CHR 0xBD, CHR 0x94, CHR 0xEB, CHR 0x93, CHR 0x9C]"

definition K_NAME :: string where
  "K_NAME = [CHR 0xEC, CHR 0xA2, CHR 0x85, CHR 0xEB, CHR 0xAA, CHR 0xA9,
             CHR 0xEB, CHR 0xAA, CHR 0x85]"

text \<open>\<open>_data(r, default)\<close>.\<close>

definition data :: "pyval \<Rightarrow> pyval \<Rightarrow> pyval" where
  "data r dflt =
     (case r of
        PDict kvs \<Rightarrow>
          (case map_of kvs ''Data'' of
             None \<Rightarrow> dflt
           | Some v \<Rightarrow> if v \<noteq> PNone then v else dflt)
      | _ \<Rightarrow> dflt)"

text \<open>
  \<open>for c in x\<close>: the elements of a list, the characters of a string, the keys of a
  dict; any other value is not iterable.
\<close>

definition py_iter :: "pyval \<Rightarrow> py_error + pyval list" where
  "py_iter x =
     (case x of
        PList xs \<Rightarrow> Inr xs
      | PStr s \<Rightarrow> Inr (map (\<lambda>c. PStr [c]) s)
      | PDict kvs \<Rightarrow> Inr (map (\<lambda>kv. PStr (fst kv)) kvs)
      | _ \<Rightarrow> Inl TypeError)"

text \<open>\<open>k in s\<close> for strings: \<open>k\<close> occurs in \<open>s\<close>.\<close>

fun is_substring :: "string \<Rightarrow> string \<Rightarrow> bool" where
  "is_substring k [] = (k = [])"
| "is_substring k (c # cs) = (take (length k) (c # cs) = k \<or> is_substring k cs)"

text \<open>
  \<open>_first_valid\<close> on a value that was not checked to be a dict. On a list or a string,
  \<open>k in d\<close> is membership and \<open>d[k]\<close> then raises, since the key is no index; on
  anything else \<open>k in d\<close> raises at the first key.
\<close>

definition first_valid_any :: "pyval \<Rightarrow> string list \<Rightarrow> pyval \<Rightarrow> py_error + pyval" where
  "first_valid_any d keys dflt =
     (case d of
        PDict kvs \<Rightarrow> Inr (first_valid (map_of kvs) keys dflt)
      | PList xs \<Rightarrow> if list_ex (\<lambda>k. PStr k \<in> set xs) keys then Inl TypeError else Inr dflt
      | PStr s \<Rightarrow> if list_ex (\<lambda>k. is_substring k s) keys then Inl TypeError else Inr dflt
      | _ \<Rightarrow> if keys = [] then Inr dflt else Inl TypeError)"

text \<open>The comprehension that extracts the code list from the search payload.\<close>

definition search_codes :: "(pyval \<Rightarrow> string) \<Rightarrow> pydict \<Rightarrow> py_error + string list" where
  "search_codes repr payload =
     (case py_iter (or_empty_list (first_valid payload [''Codes''] (PList []))) of
        Inl e \<Rightarrow> Inl e
      | Inr cs \<Rightarrow> Inr (filter (\<lambda>c. c \<noteq> []) (map (\<lambda>c. strip (py_str repr c)) cs)))"

text \<open>The loop that builds the code-to-name dict from the rows under \<open>Stocks\<close>.\<close>

fun names_loop :: "(pyval \<Rightarrow> string) \<Rightarrow> pyval list \<Rightarrow> (string \<rightharpoonup> string) \<Rightarrow> (string \<rightharpoonup> string)" where
  "names_loop repr [] names = names"
| "names_loop repr (row # rest) names =
     (case row of
        PDict kvs \<Rightarrow>
          (let c = strip (py_str repr (first_valid (map_of kvs) [''code'', K_CODE] (PStr [])));
               n = strip (py_str repr (first_valid (map_of kvs) [''name'', K_NAME] (PStr [])))
           in names_loop repr rest (if c \<noteq> [] \<and> n \<noteq> [] then names(c \<mapsto> n) else names))
      | _ \<Rightarrow> names_loop repr rest names)"

definition search_names :: "(pyval \<Rightarrow> string) \<Rightarrow> pydict \<Rightarrow> py_error + (string \<rightharpoonup> string)" where
  "search_names repr payload =
     (case py_iter (or_empty_list (first_valid payload [''Stocks''] (PList []))) of
        Inl e \<Rightarrow> Inl e
      | Inr rows \<Rightarrow> Inr (names_loop repr rows Map.empty))"

text \<open>
  The broker, as far as \<open>execute_condition\<close> sees it: the outcomes of the attempts of
  the search request, of the symbol request for each code, and of the subscribe
  request. The arguments \<open>index\<close> and \<open>name\<close> of \<open>execute_condition\<close> only go into the
  search request and the log.
\<close>

record broker =
  search_req :: "nat \<Rightarrow> http_outcome"
  symbol_req :: "string \<Rightarrow> nat \<Rightarrow> http_outcome"
  subscribe_req :: "nat \<Rightarrow> http_outcome"

text \<open>\<open>list(dict.fromkeys(codes))\<close>: the first occurrence of each code, in order.\<close>

definition dedup_first :: "string list \<Rightarrow> string list" where
  "dedup_first xs = rev (remdups (rev xs))"

text \<open>
  The loop \<open>for i, code in enumerate(codes)\<close> of \<open>_load_stocks_by_codes\<close>: the symbol
  states built, in order. \<open>names.get(code) or str(...)\<close> evaluates its right side only
  when the name is missing or empty.
\<close>

fun load_loop ::
  "(pyval \<Rightarrow> string) \<Rightarrow> real \<Rightarrow> (string \<Rightarrow> nat \<Rightarrow> http_outcome) \<Rightarrow> (string \<rightharpoonup> string)
     \<Rightarrow> string list \<Rightarrow> adapter \<Rightarrow> py_error + (stock list \<times> adapter)" where
  "load_loop repr th req names [] a = Inr ([], a)"
| "load_loop repr th req names (cd # rest) a =
     (case api_get th (req cd) a of
        Inl e \<Rightarrow> Inl e
      | Inr (symb, a1, slept) \<Rightarrow>
          (let sd = data symb (PDict []);
               named = (case names cd of
                          Some n \<Rightarrow> if n \<noteq> [] then Inr n
                                     else map_sum id (py_str repr)
                                            (first_valid_any sd [''name'', K_NAME] (PStr cd))
                        | None \<Rightarrow> map_sum id (py_str repr)
                                    (first_valid_any sd [''name'', K_NAME] (PStr cd)))
           in case named of
                Inl e \<Rightarrow> Inl e
              | Inr nm \<Rightarrow>
                  (case first_valid_any sd [''last_price'', ''current_price''] (PNum 0) of
                     Inl e \<Rightarrow> Inl e
                   | Inr lv \<Rightarrow>
                       (let last = abs_num_main repr lv;
                            base = (if last > 0 then last else 10000)
                        in case load_loop repr th req names rest a1 of
                             Inl e \<Rightarrow> Inl e
                           | Inr (ss, a2) \<Rightarrow> Inr (new_stock cd nm base # ss, a2)))))"

text \<open>\<open>_subscribe_realtime(force)\<close>.\<close>

definition subscribe_realtime ::
  "real \<Rightarrow> (nat \<Rightarrow> http_outcome) \<Rightarrow> bool \<Rightarrow> adapter \<Rightarrow> py_error + (bool \<times> adapter)" where
  "subscribe_realtime th req force a =
     (if p_account_no a = [] then Inr (False, a\<lparr>p_rt_subscribed := False\<rparr>)
      else if map (\<lambda>r. code (heap a r)) (stocks a) = [] then Inr (False, a)
      else if p_rt_subscribed a \<and> \<not> force then Inr (True, a)
      else
        (case api_get th req a of
           Inl e \<Rightarrow> Inl e
         | Inr (resp, a1, slept) \<Rightarrow>
             (case ok resp of
                Inl e \<Rightarrow> Inl e
              | Inr b \<Rightarrow> Inr (b, a1\<lparr>p_rt_subscribed := b\<rparr>))))"

text \<open>
  The second locked block of \<open>_load_stocks_by_codes\<close>: the new symbol states become
  fresh objects, \<open>stocks\<close> and \<open>_stock_by_code\<close> are replaced and the caches cleared.
\<close>

definition install_stocks :: "stock list \<Rightarrow> adapter \<Rightarrow> adapter" where
  "install_stocks new a =
     (let base = next_addr a;
          addrs = [base ..< base + length new]
      in a\<lparr>heap := (\<lambda>r. if base \<le> r \<and> r < base + length new then new ! (r - base)
                          else heap a r),
            next_addr := base + length new,
            stocks := addrs,
            p_stock_by_code := map_of (rev (zip (map code new) addrs)),
            p_candles := Map.empty,
            p_candle_idx := Map.empty,
            p_candle_req_queue := [],
            p_candle_req_set := {},
            p_candles_daily := Map.empty,
            p_stress_candle_replay_idx := Map.empty,
            p_hist_metrics_done := False\<rparr>)"

text \<open>\<open>_load_stocks_by_codes\<close>.\<close>

definition load_stocks_by_codes ::
  "(pyval \<Rightarrow> string) \<Rightarrow> real \<Rightarrow> broker \<Rightarrow> adapter \<Rightarrow> string list \<Rightarrow> (string \<rightharpoonup> string)
     \<Rightarrow> py_error + adapter" where
  "load_stocks_by_codes repr th env a codes names =
     (let a0 = a\<lparr>stocks := filter (\<lambda>r. \<not> placeholder (heap a r)) (stocks a),
                  p_stock_by_code := (p_stock_by_code a)(''000000'' := None)\<rparr>;
          codes' = slice_to (max 1 (n_max a)) (dedup_first codes)
      in case load_loop repr th (symbol_req env) names codes' a0 of
           Inl e \<Rightarrow> Inl e
         | Inr (new, a1) \<Rightarrow>
             (let a2 = install_stocks new a1;
                  a3 = fold (\<lambda>s. enqueue_candle_fetch (code s)) new a2
              in if p_rt_connected a3
                 then (case subscribe_realtime th (subscribe_req env) True a3 of
                         Inl e \<Rightarrow> Inl e
                       | Inr (b, a4) \<Rightarrow> Inr a4)
                 else Inr a3))"

text \<open>
  \<open>execute_condition\<close>. When \<open>_ok\<close> is false the log line reads \<open>rs.get('Message')\<close>,
  which needs a dict.
\<close>

definition execute_condition ::
  "(pyval \<Rightarrow> string) \<Rightarrow> real \<Rightarrow> broker \<Rightarrow> adapter \<Rightarrow> py_error + (bool \<times> adapter)" where
  "execute_condition repr th env a =
     (case api_get th (search_req env) a of
        Inl e \<Rightarrow> Inl e
      | Inr (rs, a1, slept) \<Rightarrow>
          (case ok rs of
             Inl e \<Rightarrow> Inl e
           | Inr good \<Rightarrow>
               if \<not> good then (case rs of PDict kvs \<Rightarrow> Inr (False, a1) | _ \<Rightarrow> Inl AttributeError)
               else
                 (case data rs (PDict []) of
                    PDict pkvs \<Rightarrow>
                      (case search_codes repr (map_of pkvs) of
                         Inl e \<Rightarrow> Inl e
                       | Inr codes \<Rightarrow>
                           (case search_names repr (map_of pkvs) of
                              Inl e \<Rightarrow> Inl e
                            | Inr names \<Rightarrow>
                                if codes = [] then Inr (False, a1)
                                else
                                  (case load_stocks_by_codes repr th env a1 codes names of
                                     Inl e \<Rightarrow> Inl e
                                   | Inr a2 \<Rightarrow> Inr (True, a2))))
                  | _ \<Rightarrow> Inr (False, a1))))"

text \<open>
  The state that a failed search must leave alone: the symbol table, the candle caches
  and cursors, the prefetch queue and set, the daily candles with their metrics flag,
  and the subscription flag.
\<close>

definition universe_unchanged :: "adapter \<Rightarrow> adapter \<Rightarrow> bool" where
  "universe_unchanged a a' =
     (stocks a' = stocks a \<and> heap a' = heap a \<and> p_stock_by_code a' = p_stock_by_code a \<and>
      p_candles a' = p_candles a \<and> p_candle_idx a' = p_candle_idx a \<and>
      p_stress_candle_replay_idx a' = p_stress_candle_replay_idx a \<and>
      p_candle_req_queue a' = p_candle_req_queue a \<and>
      p_candle_req_set a' = p_candle_req_set a \<and>
      p_candles_daily a' = p_candles_daily a \<and>
      p_hist_metrics_done a' = p_hist_metrics_done a \<and>
      p_rt_subscribed a' = p_rt_subscribed a)"

text \<open>The caches of a universe that was just loaded.\<close>

definition caches_cleared :: "adapter \<Rightarrow> bool" where
  "caches_cleared a =
     (p_candles a = Map.empty \<and> p_candle_idx a = Map.empty \<and>
      p_candles_daily a = Map.empty \<and> p_stress_candle_replay_idx a = Map.empty \<and>
      \<not> p_hist_metrics_done a)"

text \<open>
  Two brokers for the scenarios: the search answers with an empty code list, or with
  the one code 000660; every symbol request fails.
\<close>

definition search_response :: "pyval list \<Rightarrow> pyval" where
  "search_response cds =
     PDict [(''Success'', PBool True), (''Message'', PStr []),
            (''Data'', PDict [(''Codes'', PList cds), (''Stocks'', PList [])])]"

definition broker_with :: "pyval list \<Rightarrow> broker" where
  "broker_with cds =
     \<lparr>search_req = (\<lambda>attempt. Returns (search_response cds)),
      symbol_req = (\<lambda>cd attempt. Raises ''timed out''),
      subscribe_req = (\<lambda>attempt. Raises ''timed out'')\<rparr>"

section \<open>Results\<close>

lemmas text_defs =
  py_str_def strip_def is_space_def remove_char_def lstrip_char_def or_zero_def num_text_def
  digits_text_ck_def digits_text_main_def

lemmas float_defs =
  py_float_def parse_number_def parse_exponent_def is_dp_def is_digit_def mantissa_def
  digits_val_def digit_val_def





lemma count_axes_filter:
  "count_axes h b l = int (length (filter (\<lambda>x. 0.4 \<le> x) [h, b, l]))"
  by (simp add: count_axes_def)

lemma scores_bounded_upd:
  "scores_bounded (s\<lparr>tes := max 0 (min 3 x1), hms := max 0 (min 1 x2), bms := max 0 (min 1 x3),
      sls := max 0 (min 1 x4), ucs := max 0 (min 1 x5), frs := max 0 (min 2.5 x6),
      axes := count_axes (max 0 (min 1 x2)) (max 0 (min 1 x3)) (max 0 (min 1 x4))\<rparr>)"
  by (simp add: scores_bounded_def count_axes_filter del: filter.simps)

text \<open>
  C2. After \<open>recompute_scores\<close> (the strategy module's, and the adapter's own
  \<open>_recompute_scores\<close>), for every symbol state and all rate, diff and intensity
  arguments: tes is in [0,3], frs in [0,2.5], ucs, hms, bms and sls are in [0,1], and
  axes is the number of the scores hms, bms, sls that are at least 0.4.
\<close>

theorem recompute_scores_bounds:
  "scores_bounded (recompute_scores s rate diff intensity) \<and>
   scores_bounded (recompute_scores_claude s rate diff intensity)"
  unfolding recompute_scores_def recompute_scores_claude_def Let_def
  by (intro conjI scores_bounded_upd)

lemma detect_found_close:
  "detect_found sample ''close'' =
     first_cand sample [''close'', ''c'', ''Close'', K_CLOSE, K_CLOSE_ALT, ''last_price'', ''CLOSE'']"
  by (simp add: detect_found_def CANDIDATES_def split: option.split)

lemma detect_locked: "locked km \<Longrightarrow> detect km sample = (True, km)"
  by (simp add: detect_def)

lemma detect_true_locks: "fst (detect km sample) \<Longrightarrow> locked (snd (detect km sample))"
  by (simp add: detect_def Let_def split: if_splits)

lemma detect_unlocked_result:
  "\<not> locked km \<Longrightarrow> fst (detect km sample) = (detect_found sample ''close'' \<noteq> None)"
  by (simp add: detect_def Let_def)

lemma detect_no_close: "\<not> locked km \<Longrightarrow> detect_found sample ''close'' = None \<Longrightarrow>
    detect km sample = (False, km)"
  by (simp add: detect_def)

lemma detect_all_no_close:
  "\<not> locked km \<Longrightarrow> \<forall>s \<in> set ss. detect_found s ''close'' = None \<Longrightarrow>
     detect_all km ss = (replicate (length ss) False, km)"
  by (induction ss) (simp_all add: detect_no_close)

text \<open>
  C4. For every key map and all samples s1, s2: if \<open>detect(s1)\<close> returns true, the map
  is locked, and a following \<open>detect(s2)\<close> returns true and leaves the map, so the
  resolved mapping, as it is. On a map that is not locked, \<open>detect\<close> returns true exactly
  when the sample resolves "close" (and then stores a mapping with a "close" entry); so on
  a new map, as long as no sample resolves "close", every call returns false and
  \<open>resolved\<close> stays empty.
\<close>

theorem detect_stable:
  "(fst (detect km s1) \<longrightarrow>
      locked (snd (detect km s1)) \<and>
      detect (snd (detect km s1)) s2 = (True, snd (detect km s1))) \<and>
   (\<not> locked km \<longrightarrow>
      fst (detect km s1) = (detect_found s1 ''close'' \<noteq> None) \<and>
      (fst (detect km s1) \<longrightarrow> resolved (snd (detect km s1)) ''close'' \<noteq> None)) \<and>
   ((\<forall>s \<in> set ss. detect_found s ''close'' = None) \<longrightarrow>
      detect_all CandleKeyMap_init ss = (replicate (length ss) False, CandleKeyMap_init) \<and>
      resolved (snd (detect_all CandleKeyMap_init ss)) = Map.empty)"
proof (intro conjI impI)
  assume t: "fst (detect km s1)"
  then show l: "locked (snd (detect km s1))" by (rule detect_true_locks)
  then show "detect (snd (detect km s1)) s2 = (True, snd (detect km s1))"
    by (rule detect_locked)
next
  assume "\<not> locked km"
  then show "fst (detect km s1) = (detect_found s1 ''close'' \<noteq> None)"
    by (rule detect_unlocked_result)
next
  assume "\<not> locked km" "fst (detect km s1)"
  then show "resolved (snd (detect km s1)) ''close'' \<noteq> None"
    by (auto simp add: detect_def Let_def split: if_splits)
next
  assume n: "\<forall>s \<in> set ss. detect_found s ''close'' = None"
  have "\<not> locked CandleKeyMap_init" by (simp add: CandleKeyMap_init_def)
  from detect_all_no_close [OF this n]
  show d: "detect_all CandleKeyMap_init ss = (replicate (length ss) False, CandleKeyMap_init)" .
  show "resolved (snd (detect_all CandleKeyMap_init ss)) = Map.empty"
    by (simp add: d) (simp add: CandleKeyMap_init_def)
qed

theorem detect_stable_witness:
  "fst (detect CandleKeyMap_init [''c'' \<mapsto> PStr ''100'']) \<and>
   \<not> locked CandleKeyMap_init \<and>
   detect_found Map.empty ''close'' = None \<and>
   detect_found [''open'' \<mapsto> PNum 5, ''close'' \<mapsto> PStr '' ''] ''close'' = None \<and>
   detect (snd (detect CandleKeyMap_init [''c'' \<mapsto> PStr ''100'']))
          [''close'' \<mapsto> PNum 7, ''open'' \<mapsto> PNum 6]
     = (True, snd (detect CandleKeyMap_init [''c'' \<mapsto> PStr ''100''])) \<and>
   resolved (snd (detect CandleKeyMap_init [''c'' \<mapsto> PStr ''100''])) ''close'' \<noteq> None \<and>
   detect_all CandleKeyMap_init [Map.empty, [''open'' \<mapsto> PNum 5, ''close'' \<mapsto> PStr '' '']]
     = ([False, False], CandleKeyMap_init)"
proof -
  have u: "\<not> locked CandleKeyMap_init" by (simp add: CandleKeyMap_init_def)
  have f: "detect_found [''c'' \<mapsto> PStr ''100''] ''close'' \<noteq> None"
    by (simp add: detect_found_close first_cand_def blank3_def)
  have t: "fst (detect CandleKeyMap_init [''c'' \<mapsto> PStr ''100''])"
    using u f by (simp add: detect_def Let_def)
  have n: "\<forall>s \<in> set [Map.empty, [''open'' \<mapsto> PNum 5, ''close'' \<mapsto> PStr '' '']].
        detect_found s ''close'' = None"
    by (simp add: detect_found_close first_cand_def blank3_def K_CLOSE_def K_CLOSE_ALT_def)
  from n have n1: "detect_found Map.empty ''close'' = None"
    and n2: "detect_found [''open'' \<mapsto> PNum 5, ''close'' \<mapsto> PStr '' ''] ''close'' = None"
    by simp_all
  from detect_stable [of CandleKeyMap_init "[''c'' \<mapsto> PStr ''100'']"
      "[''close'' \<mapsto> PNum 7, ''open'' \<mapsto> PNum 6]"
      "[Map.empty, [''open'' \<mapsto> PNum 5, ''close'' \<mapsto> PStr '' '']]"] t u n n1 n2
  show ?thesis by simp
qed


lemma abs_num_claude_nonneg: "0 \<le> abs_num_claude repr v"
  by (simp add: abs_num_claude_def)













lemma recompute_scores_shape:
  "\<exists>x1 x2 x3 x4 x5 x6 x7. recompute_scores s rate diff intensity =
     s\<lparr>tes := x1, hms := x2, bms := x3, sls := x4, ucs := x5, frs := x6, axes := x7\<rparr>"
  unfolding recompute_scores_def Let_def by (intro exI) (rule refl)

lemma recompute_scores_price: "price (recompute_scores s rate diff intensity) = price s"
  using recompute_scores_shape [of s rate diff intensity]
  by (elim exE) simp

lemma apply_tick_main_price:
  "price (apply_tick_main s pr op hi lo vol rate diff inten) = (if pr > 0 then pr else price s)"
  by (simp add: apply_tick_main_def Let_def recompute_scores_price)

lemma apply_tick_real_shape:
  "\<exists>s3 x1 x2 x3 x4 x5 x6 x7 x8.
     apply_tick_real s pr op vol rate diff intensity =
       s3\<lparr>tes := x1, ucs := x2, frs := x3, hms := x4, bms := x5, sls := x6, axes := x7,
           tick_count := x8\<rparr> \<and>
     price s3 = (if pr > 0 then pr else price s)"
proof -
  define s3 where "s3 =
    (if vol > 0
     then (if op > 0 then (if pr > 0 then s\<lparr>price := pr\<rparr> else s)\<lparr>open_price := op\<rparr>
           else (if pr > 0 then s\<lparr>price := pr\<rparr> else s))\<lparr>volume_acc := vol\<rparr>
     else (if op > 0 then (if pr > 0 then s\<lparr>price := pr\<rparr> else s)\<lparr>open_price := op\<rparr>
           else (if pr > 0 then s\<lparr>price := pr\<rparr> else s)))"
  have p: "price s3 = (if pr > 0 then pr else price s)" by (simp add: s3_def)
  have "\<exists>x1 x2 x3 x4 x5 x6 x7 x8. apply_tick_real s pr op vol rate diff intensity =
       s3\<lparr>tes := x1, ucs := x2, frs := x3, hms := x4, bms := x5, sls := x6, axes := x7,
           tick_count := x8\<rparr>"
    unfolding apply_tick_real_def Let_def s3_def by (intro exI) (rule refl)
  with p show ?thesis by blast
qed

lemma apply_tick_real_price:
  "price (apply_tick_real s pr op vol rate diff intensity) = (if pr > 0 then pr else price s)"
  using apply_tick_real_shape [of s pr op vol rate diff intensity]
  by (elim exE conjE) simp

lemma price_msg1_main:
  "abs_num_main repr (first_valid (ev_data (tick_msg1 cd)) RT_PRICE_KEYS (PNum 0)) = 12000"
  by (simp add: tick_msg1_def first_valid_def RT_PRICE_KEYS_def blank3_def dict_get_def
      abs_num_main_def to_num_main_def text_defs float_defs)

lemma price_msg2_main:
  "abs_num_main repr (first_valid (ev_data (tick_msg2 cd)) RT_PRICE_KEYS (PNum 0)) = 11000"
  by (simp add: tick_msg2_def first_valid_def RT_PRICE_KEYS_def blank3_def dict_get_def
      abs_num_main_def to_num_main_def text_defs float_defs)

lemma price_msg1_real:
  "to_num_real repr (coalesce (ev_data (tick_msg1 cd)) [''current_price'', ''price'', K_CLOSE]
     (PNum 0)) = 12000"
  by (simp add: tick_msg1_def coalesce_def blank2_def dict_get_def to_num_real_def text_defs
      float_defs)

lemma price_msg2_real:
  "to_num_real repr (coalesce (ev_data (tick_msg2 cd)) [''current_price'', ''price'', K_CLOSE]
     (PNum 0)) = - 11000"
  by (simp add: tick_msg2_def coalesce_def blank2_def dict_get_def to_num_real_def text_defs
      float_defs)

lemma ev_code_msgs: "ev_code (tick_msg1 cd) = PStr cd" "ev_code (tick_msg2 cd) = PStr cd"
  by (simp_all add: tick_msg1_def tick_msg2_def)

text \<open>
  In \<open>perf_real_main\<close> the scenario ends as the specification says: the second message
  sets the price to 11000.
\<close>

lemma on_realtime_main_scenario:
  assumes "p_stock_by_code a cd = Some r" "strip cd = cd" "cd \<noteq> []"
  shows "price (heap (on_realtime_main repr t2 (on_realtime_main repr t1 a (tick_msg1 cd))
                      (tick_msg2 cd)) r) = 11000"
proof -
  let ?a1 = "on_realtime_main repr t1 a (tick_msg1 cd)"
  have 1: "p_stock_by_code ?a1 cd = Some r"
    using assms by (simp add: on_realtime_main_def Let_def py_str_def ev_code_msgs)
  show ?thesis
    using assms 1
    by (simp add: on_realtime_main_def [of repr t2] Let_def py_str_def ev_code_msgs
        apply_tick_main_price price_msg2_main)
qed

text \<open>
  C3, on \<open>perf_real._on_realtime\<close>. After the message with current_price "12,000" and
  rate 5.0 and then the message with current_price "-11,000" for a code the adapter
  tracks, the symbol's price is 12000, not 11000: this handler reads the price with the
  signed \<open>_to_num\<close> and skips a price that is not positive.
\<close>

theorem on_realtime_real_scenario:
  assumes "p_stock_by_code a cd = Some r" "strip cd = cd" "cd \<noteq> []"
  shows "price (heap (on_realtime_real repr t2 (on_realtime_real repr t1 a (tick_msg1 cd))
                      (tick_msg2 cd)) r) = 12000"
proof -
  let ?a1 = "on_realtime_real repr t1 a (tick_msg1 cd)"
  have 1: "p_stock_by_code ?a1 cd = Some r"
    using assms by (simp add: on_realtime_real_def Let_def py_str_def ev_code_msgs)
  have 2: "price (heap ?a1 r) = 12000"
    using assms
    by (simp add: on_realtime_real_def Let_def py_str_def ev_code_msgs apply_tick_real_price
        price_msg1_real)
  show ?thesis
    using assms 1 2
    by (simp add: on_realtime_real_def [of repr t2] Let_def py_str_def ev_code_msgs
        apply_tick_real_price price_msg2_real)
qed

theorem on_realtime_real_scenario_witness:
  "p_stock_by_code one_symbol_adapter ''005930'' = Some 0 \<and>
   strip ''005930'' = ''005930'' \<and>
   price (heap (on_realtime_real (\<lambda>_. []) 2
                  (on_realtime_real (\<lambda>_. []) 1 one_symbol_adapter (tick_msg1 ''005930''))
                  (tick_msg2 ''005930'')) 0) = 12000"
proof -
  have h1: "p_stock_by_code one_symbol_adapter ''005930'' = Some 0"
    by (simp add: one_symbol_adapter_def)
  have h2: "strip ''005930'' = ''005930''" by (simp add: strip_def is_space_def)
  have h3: "''005930'' \<noteq> []" by simp
  from h1 h2 on_realtime_real_scenario [OF h1 h2 h3, of "\<lambda>_. []" 2 1] show ?thesis by simp
qed

lemma merge_snapshot_again:
  "s1 k = s2 k \<Longrightarrow> merge_snapshot (merge_snapshot d s1) s2 k = merge_snapshot d s1 k"
  by (simp add: merge_snapshot_def split: option.split)

lemma signature_target_again:
  assumes "same_canonical s1 s2"
  shows "signature_target (merge_snapshot (merge_snapshot d s1) s2)
           = signature_target (merge_snapshot d s1)"
  using assms
  by (simp add: same_canonical_def signature_keys_def signature_target_def dict_get_def
      merge_snapshot_again)

lemma signature_target_cong:
  assumes "same_canonical s1 s2"
  shows "signature_target (merge_snapshot d s2) = signature_target (merge_snapshot d s1)"
  using assms
  by (simp add: same_canonical_def signature_keys_def signature_target_def dict_get_def
      merge_snapshot_def)

lemma set_dashboard_snapshot_second:
  assumes c: "same_canonical s1 s2" and e: "s1 = Map.empty \<longrightarrow> s2 = Map.empty"
  shows "set_dashboard_snapshot dumps (snd (set_dashboard_snapshot dumps st s1)) s2
           = (False, snd (set_dashboard_snapshot dumps st s1))"
proof (cases "s1 = Map.empty")
  case True
  with e show ?thesis by (simp add: set_dashboard_snapshot_def)
next
  case False
  show ?thesis
  proof (cases "dumps (signature_target (merge_snapshot (dashboard st) s1))
                  = p_dashboard_signature st")
    case True
    with False have "set_dashboard_snapshot dumps st s1 = (False, st)"
      by (simp add: set_dashboard_snapshot_def)
    with True show ?thesis
      by (simp add: set_dashboard_snapshot_def Let_def signature_target_cong [OF c])
  next
    case n: False
    with False show ?thesis
      by (simp add: set_dashboard_snapshot_def Let_def signature_target_again [OF c])
  qed
qed

lemma set_dashboard_snapshot_emitted:
  "emitted (snd (set_dashboard_snapshot dumps st s)) =
     emitted st @ (if fst (set_dashboard_snapshot dumps st s)
                   then [dashboard (snd (set_dashboard_snapshot dumps st s))] else [])"
  by (simp add: set_dashboard_snapshot_def Let_def)

lemma same_canonical_refl: "same_canonical s s"
  by (simp add: same_canonical_def list_all_iff)

text \<open>
  C7. Applying \<open>set_dashboard_snapshot\<close> twice with the same canonical content (the
  second snapshot agrees with the first on account id, fetch time, totals, holdings and
  outstanding; in particular the same snapshot twice): the second call returns false and
  leaves the whole state, so the stored dashboard, holdings and outstanding lists, as the
  first call left it, without calling the listeners. Over the two calls the listeners
  are called exactly once when the first call published, and a first call on a new
  \<open>AppState\<close> with a snapshot that is not empty does publish.
\<close>

theorem dashboard_snapshot_dedup:
  "(same_canonical s1 s2 \<and> (s1 = Map.empty \<longrightarrow> s2 = Map.empty) \<longrightarrow>
      set_dashboard_snapshot dumps (snd (set_dashboard_snapshot dumps st s1)) s2
        = (False, snd (set_dashboard_snapshot dumps st s1))) \<and>
   set_dashboard_snapshot dumps (snd (set_dashboard_snapshot dumps st s1)) s1
     = (False, snd (set_dashboard_snapshot dumps st s1)) \<and>
   (fst (set_dashboard_snapshot dumps st s1) \<longrightarrow>
      length (emitted (snd (set_dashboard_snapshot dumps
                              (snd (set_dashboard_snapshot dumps st s1)) s1)))
        = length (emitted st) + 1) \<and>
   (s1 \<noteq> Map.empty \<and> dumps (signature_target (merge_snapshot Map.empty s1)) \<noteq> [] \<longrightarrow>
      fst (set_dashboard_snapshot dumps AppState_init s1))"
proof (intro conjI impI)
  assume "same_canonical s1 s2 \<and> (s1 = Map.empty \<longrightarrow> s2 = Map.empty)"
  then show "set_dashboard_snapshot dumps (snd (set_dashboard_snapshot dumps st s1)) s2
        = (False, snd (set_dashboard_snapshot dumps st s1))"
    by (simp add: set_dashboard_snapshot_second)
next
  show 2: "set_dashboard_snapshot dumps (snd (set_dashboard_snapshot dumps st s1)) s1
     = (False, snd (set_dashboard_snapshot dumps st s1))"
    by (rule set_dashboard_snapshot_second) (simp_all add: same_canonical_refl)
  assume "fst (set_dashboard_snapshot dumps st s1)"
  then show "length (emitted (snd (set_dashboard_snapshot dumps
                              (snd (set_dashboard_snapshot dumps st s1)) s1)))
        = length (emitted st) + 1"
    by (simp add: 2 set_dashboard_snapshot_emitted [of dumps st s1])
next
  assume "s1 \<noteq> Map.empty \<and> dumps (signature_target (merge_snapshot Map.empty s1)) \<noteq> []"
  then show "fst (set_dashboard_snapshot dumps AppState_init s1)"
    by (simp add: set_dashboard_snapshot_def AppState_init_def Let_def)
qed

theorem dashboard_snapshot_dedup_witness:
  "same_canonical [''AccountNo'' \<mapsto> PStr ''A1'', ''Holdings'' \<mapsto> PList []]
     [''AccountNo'' \<mapsto> PStr ''A1'', ''Holdings'' \<mapsto> PList [], ''Note'' \<mapsto> PNum 1] \<and>
   [''AccountNo'' \<mapsto> PStr ''A1'', ''Holdings'' \<mapsto> PList []] \<noteq> Map.empty \<and>
   fst (set_dashboard_snapshot (\<lambda>_. ''{}'') AppState_init
          [''AccountNo'' \<mapsto> PStr ''A1'', ''Holdings'' \<mapsto> PList []]) \<and>
   set_dashboard_snapshot (\<lambda>_. ''{}'')
     (snd (set_dashboard_snapshot (\<lambda>_. ''{}'') AppState_init
             [''AccountNo'' \<mapsto> PStr ''A1'', ''Holdings'' \<mapsto> PList []]))
     [''AccountNo'' \<mapsto> PStr ''A1'', ''Holdings'' \<mapsto> PList [], ''Note'' \<mapsto> PNum 1]
     = (False, snd (set_dashboard_snapshot (\<lambda>_. ''{}'') AppState_init
                      [''AccountNo'' \<mapsto> PStr ''A1'', ''Holdings'' \<mapsto> PList []])) \<and>
   length (emitted (snd (set_dashboard_snapshot (\<lambda>_. ''{}'')
     (snd (set_dashboard_snapshot (\<lambda>_. ''{}'') AppState_init
             [''AccountNo'' \<mapsto> PStr ''A1'', ''Holdings'' \<mapsto> PList []]))
     [''AccountNo'' \<mapsto> PStr ''A1'', ''Holdings'' \<mapsto> PList []]))) = 1"
proof -
  let ?s1 = "[''AccountNo'' \<mapsto> PStr ''A1'', ''Holdings'' \<mapsto> PList []]"
  let ?s2 = "[''AccountNo'' \<mapsto> PStr ''A1'', ''Holdings'' \<mapsto> PList [], ''Note'' \<mapsto> PNum 1]"
  have h1: "same_canonical ?s1 ?s2"
    by (simp add: same_canonical_def signature_keys_def)
  have h2: "?s1 \<noteq> Map.empty" by simp
  have h3: "''{}'' \<noteq> []" by simp
  have e: "emitted AppState_init = []" by (simp add: AppState_init_def)
  note T = dashboard_snapshot_dedup [of ?s1 ?s2 "\<lambda>_. ''{}''" AppState_init]
  from T h1 h2 have A: "set_dashboard_snapshot (\<lambda>_. ''{}'')
      (snd (set_dashboard_snapshot (\<lambda>_. ''{}'') AppState_init ?s1)) ?s2
      = (False, snd (set_dashboard_snapshot (\<lambda>_. ''{}'') AppState_init ?s1))"
    by blast
  from T h2 h3 have B: "fst (set_dashboard_snapshot (\<lambda>_. ''{}'') AppState_init ?s1)"
    by blast
  from T B have "length (emitted (snd (set_dashboard_snapshot (\<lambda>_. ''{}'')
      (snd (set_dashboard_snapshot (\<lambda>_. ''{}'') AppState_init ?s1)) ?s1)))
      = length (emitted AppState_init) + 1"
    by blast
  then have C: "length (emitted (snd (set_dashboard_snapshot (\<lambda>_. ''{}'')
      (snd (set_dashboard_snapshot (\<lambda>_. ''{}'') AppState_init ?s1)) ?s1))) = 1"
    by (simp add: e)
  show ?thesis by (intro conjI h1 h2 B A C)
qed








lemma apply_candle_code:
  assumes "\<And>s rate. code (rc s rate) = code s"
  shows "code (apply_candle rc s candle) = code s"
  by (simp add: apply_candle_def Let_def assms)

lemma apply_candle_price:
  assumes "\<And>s rate. price (rc s rate) = price s"
  shows "price (apply_candle rc s candle) = bar_c candle"
  by (simp add: apply_candle_def Let_def assms)

lemma same_frame_refl: "same_frame a a"
  by (simp add: same_frame_def)

lemma stress_step_frame:
  assumes rc: "\<And>s rate. code (rc s rate) = code s" and f: "same_frame a0 a"
  shows "same_frame a0 (stress_step rc r a)"
  using f
  by (auto simp add: same_frame_def stress_step_def Let_def apply_candle_code [OF rc]
      split: option.splits)

lemma stress_step_by_code_ok:
  assumes rc: "\<And>s rate. code (rc s rate) = code s" and b: "by_code_ok a"
  shows "by_code_ok (stress_step rc r a)"
  using b
  by (auto simp add: by_code_ok_def stress_step_def Let_def apply_candle_code [OF rc]
      split: option.splits)

lemma stress_step_other:
  assumes b: "by_code_ok a" and n: "code (heap a r) \<noteq> cd"
    and s: "p_stock_by_code a cd = Some rcd"
  shows "p_stress_candle_replay_idx (stress_step rc r a) cd = p_stress_candle_replay_idx a cd \<and>
         heap (stress_step rc r a) rcd = heap a rcd"
proof -
  from b s have c: "code (heap a rcd) = cd" by (simp add: by_code_ok_def)
  have "\<And>r'. p_stock_by_code a (code (heap a r)) = Some r' \<Longrightarrow> r' \<noteq> rcd"
  proof
    fix r' assume "p_stock_by_code a (code (heap a r)) = Some r'" "r' = rcd"
    with b have "code (heap a rcd) = code (heap a r)" by (simp add: by_code_ok_def)
    with c n show False by simp
  qed
  with n show ?thesis
    by (auto simp add: stress_step_def Let_def split: option.splits)
qed

lemma stress_step_hit:
  assumes "code (heap a r) = cd" "p_candles a cd = Some series" "series \<noteq> []"
    "p_stock_by_code a cd = Some rcd"
  shows "p_stress_candle_replay_idx (stress_step rc r a) cd = Some (replay_index a cd series + 1) \<and>
         heap (stress_step rc r a) rcd
           = apply_candle rc (heap a rcd) (series ! replay_index a cd series)"
  using assms by (simp add: stress_step_def Let_def)

lemma fold_stress_miss:
  assumes rc: "\<And>s rate. code (rc s rate) = code s"
    and s: "p_stock_by_code a0 cd = Some rcd"
  shows "same_frame a0 a \<Longrightarrow> by_code_ok a \<Longrightarrow> cd \<notin> set (map (\<lambda>r. code (heap a0 r)) ts) \<Longrightarrow>
     same_frame a0 (fold (stress_step rc) ts a) \<and> by_code_ok (fold (stress_step rc) ts a) \<and>
     p_stress_candle_replay_idx (fold (stress_step rc) ts a) cd = p_stress_candle_replay_idx a cd \<and>
     heap (fold (stress_step rc) ts a) rcd = heap a rcd"
proof (induction ts arbitrary: a)
  case Nil
  then show ?case by simp
next
  case (Cons t ts)
  from Cons.prems have n: "code (heap a t) \<noteq> cd" by (auto simp add: same_frame_def)
  from Cons.prems s have sa: "p_stock_by_code a cd = Some rcd" by (simp add: same_frame_def)
  note o = stress_step_other [OF Cons.prems(2) n sa, of rc]
  have f: "same_frame a0 (stress_step rc t a)" by (rule stress_step_frame [OF rc Cons.prems(1)])
  have b: "by_code_ok (stress_step rc t a)" by (rule stress_step_by_code_ok [OF rc Cons.prems(2)])
  from Cons.prems(3) have m: "cd \<notin> set (map (\<lambda>r. code (heap a0 r)) ts)" by simp
  from Cons.IH [OF f b m] o show ?case by simp
qed

lemma fold_stress_hit:
  assumes rc: "\<And>s rate. code (rc s rate) = code s"
    and s: "p_stock_by_code a0 cd = Some rcd"
    and f: "same_frame a0 a" and b: "by_code_ok a"
    and c: "p_candles a0 cd = Some series" "series \<noteq> []"
    and d: "distinct (map (\<lambda>r. code (heap a0 r)) ts)"
    and m: "cd \<in> set (map (\<lambda>r. code (heap a0 r)) ts)"
  shows "same_frame a0 (fold (stress_step rc) ts a) \<and> by_code_ok (fold (stress_step rc) ts a) \<and>
     p_stress_candle_replay_idx (fold (stress_step rc) ts a) cd
       = Some (replay_index a cd series + 1) \<and>
     heap (fold (stress_step rc) ts a) rcd
       = apply_candle rc (heap a rcd) (series ! replay_index a cd series)"
proof -
  let ?f = "\<lambda>r. code (heap a0 r)"
  from m obtain pre t post where ts: "ts = pre @ t # post" and t: "?f t = cd"
    by (auto simp add: in_set_conv_decomp map_eq_append_conv)
  from d ts t have np: "cd \<notin> set (map ?f pre)" and nq: "cd \<notin> set (map ?f post)"
    by auto
  let ?a1 = "fold (stress_step rc) pre a"
  note p = fold_stress_miss [OF rc s f b np]
  from p have f1: "same_frame a0 ?a1" and b1: "by_code_ok ?a1" by simp_all
  from f1 t have t1: "code (heap ?a1 t) = cd" by (simp add: same_frame_def)
  from f1 c have c1: "p_candles ?a1 cd = Some series" by (simp add: same_frame_def)
  from f1 s have s1: "p_stock_by_code ?a1 cd = Some rcd" by (simp add: same_frame_def)
  let ?a2 = "stress_step rc t ?a1"
  note h = stress_step_hit [OF t1 c1 c(2) s1, of rc]
  have f2: "same_frame a0 ?a2" by (rule stress_step_frame [OF rc f1])
  have b2: "by_code_ok ?a2" by (rule stress_step_by_code_ok [OF rc b1])
  note q = fold_stress_miss [OF rc s f2 b2 nq]
  have ri: "replay_index ?a1 cd series = replay_index a cd series"
    using p by (simp add: replay_index_def)
  from q h p ri show ?thesis by (simp add: ts)
qed

lemma run_stress_tick_once:
  assumes rc: "\<And>s rate. code (rc s rate) = code s"
    and s: "p_stock_by_code a0 cd = Some rcd"
    and f: "same_frame a0 a" and b: "by_code_ok a"
    and c: "p_candles a0 cd = Some series" "series \<noteq> []"
    and d: "distinct (batch_codes a0)" and m: "cd \<in> set (batch_codes a0)"
  shows "same_frame a0 (run_stress_tick rc a) \<and> by_code_ok (run_stress_tick rc a) \<and>
     p_stress_candle_replay_idx (run_stress_tick rc a) cd = Some (replay_index a cd series + 1) \<and>
     heap (run_stress_tick rc a) rcd
       = apply_candle rc (heap a rcd) (series ! replay_index a cd series)"
proof -
  let ?a' = "a\<lparr>p_stress_cycle := p_stress_cycle a + 1\<rparr>"
  let ?ts = "slice_to (p_stress_batch a0) (stocks a0)"
  from f have f': "same_frame a0 ?a'" by (simp add: same_frame_def)
  from b have b': "by_code_ok ?a'" by (simp add: by_code_ok_def)
  from f have t: "slice_to (p_stress_batch a) (stocks a) = ?ts" by (simp add: same_frame_def)
  from d have d': "distinct (map (\<lambda>r. code (heap a0 r)) ?ts)" by (simp add: batch_codes_def)
  from m have m': "cd \<in> set (map (\<lambda>r. code (heap a0 r)) ?ts)" by (simp add: batch_codes_def)
  have r: "replay_index ?a' cd series = replay_index a cd series"
    by (simp add: replay_index_def)
  from fold_stress_hit [OF rc s f' b' c d' m'] r t show ?thesis
    by (simp add: run_stress_tick_def)
qed

lemma replay_index_next:
  assumes "p_stress_candle_replay_idx a cd = Some (k mod length series + 1)" "series \<noteq> []"
  shows "replay_index a cd series = Suc k mod length series"
proof -
  define m where "m = k mod length series"
  from assms(2) have lt: "m < length series" by (simp add: m_def)
  from assms(1) have "replay_index a cd series = (if length series \<le> m + 1 then 0 else m + 1)"
    by (simp add: replay_index_def m_def)
  moreover have "Suc k mod length series = (if Suc m = length series then 0 else Suc m)"
    unfolding m_def by (rule mod_Suc)
  ultimately show ?thesis using lt by auto
qed

lemma stress_ticks_invariant:
  assumes rc: "\<And>s rate. code (rc s rate) = code s"
    and s: "p_stock_by_code a0 cd = Some rcd" and b: "by_code_ok a0"
    and c: "p_candles a0 cd = Some series" "series \<noteq> []"
    and d: "distinct (batch_codes a0)" and m: "cd \<in> set (batch_codes a0)"
    and i: "replay_index a0 cd series = 0"
  shows "same_frame a0 ((run_stress_tick rc ^^ k) a0) \<and>
         by_code_ok ((run_stress_tick rc ^^ k) a0) \<and>
         replay_index ((run_stress_tick rc ^^ k) a0) cd series = k mod length series"
proof (induction k)
  case 0
  from b i show ?case by (simp add: same_frame_refl)
next
  case (Suc k)
  let ?ak = "(run_stress_tick rc ^^ k) a0"
  from Suc have f: "same_frame a0 ?ak" and bk: "by_code_ok ?ak"
    and ik: "replay_index ?ak cd series = k mod length series" by simp_all
  note o = run_stress_tick_once [OF rc s f bk c d m]
  from o ik have "p_stress_candle_replay_idx (run_stress_tick rc ?ak) cd
      = Some (k mod length series + 1)" by simp
  from replay_index_next [OF this c(2)] o show ?case by simp
qed

lemma stress_replay_cycle:
  assumes rc: "\<And>s rate. code (rc s rate) = code s"
    and pr: "\<And>s rate. price (rc s rate) = price s"
    and b: "by_code_ok a0" and s: "p_stock_by_code a0 cd = Some r"
    and c: "p_candles a0 cd = Some series" "series \<noteq> []"
    and d: "distinct (batch_codes a0)" and m: "cd \<in> set (batch_codes a0)"
    and i: "replay_index a0 cd series = 0"
  shows "p_candles ((run_stress_tick rc ^^ k) a0) cd = Some series \<and>
     batch_codes ((run_stress_tick rc ^^ k) a0) = batch_codes a0 \<and>
     replay_index ((run_stress_tick rc ^^ k) a0) cd series = k mod length series \<and>
     replay_index ((run_stress_tick rc ^^ length series) a0) cd series = 0 \<and>
     replay_index ((run_stress_tick rc ^^ (k + length series)) a0) cd series
       = replay_index ((run_stress_tick rc ^^ k) a0) cd series \<and>
     p_stress_candle_replay_idx (run_stress_tick rc ((run_stress_tick rc ^^ k) a0)) cd
       = Some (k mod length series + 1) \<and>
     heap (run_stress_tick rc ((run_stress_tick rc ^^ k) a0)) r
       = apply_candle rc (heap ((run_stress_tick rc ^^ k) a0) r) (series ! (k mod length series)) \<and>
     price (heap (run_stress_tick rc ((run_stress_tick rc ^^ k) a0)) r)
       = bar_c (series ! (k mod length series))"
proof -
  note inv = stress_ticks_invariant [OF rc s b c d m i]
  let ?ak = "(run_stress_tick rc ^^ k) a0"
  from inv [of k] have f: "same_frame a0 ?ak" and bk: "by_code_ok ?ak"
    and ik: "replay_index ?ak cd series = k mod length series" by simp_all
  note o = run_stress_tick_once [OF rc s f bk c d m]
  from f c have 1: "p_candles ?ak cd = Some series" by (simp add: same_frame_def)
  from f have 2: "batch_codes ?ak = batch_codes a0" by (simp add: same_frame_def batch_codes_def)
  from inv [of "length series"] have 3:
    "replay_index ((run_stress_tick rc ^^ length series) a0) cd series = 0" by simp
  from inv [of "k + length series"] ik have 4:
    "replay_index ((run_stress_tick rc ^^ (k + length series)) a0) cd series
       = replay_index ?ak cd series" by simp
  from o ik have 5: "p_stress_candle_replay_idx (run_stress_tick rc ?ak) cd
       = Some (k mod length series + 1)" by simp
  from o ik have 6: "heap (run_stress_tick rc ?ak) r
       = apply_candle rc (heap ?ak r) (series ! (k mod length series))" by simp
  from 6 have 7: "price (heap (run_stress_tick rc ?ak) r) = bar_c (series ! (k mod length series))"
    by (simp add: apply_candle_price [OF pr])
  from 1 2 ik 3 4 5 6 7 show ?thesis by blast
qed

lemma recompute_scores_code: "code (recompute_scores s rate diff intensity) = code s"
  using recompute_scores_shape [of s rate diff intensity]
  by (elim exE) simp

lemma recompute_scores_claude_shape:
  "\<exists>x1 x2 x3 x4 x5 x6 x7. recompute_scores_claude s rate diff intensity =
     s\<lparr>tes := x1, hms := x2, bms := x3, sls := x4, ucs := x5, frs := x6, axes := x7\<rparr>"
  unfolding recompute_scores_claude_def Let_def by (intro exI) (rule refl)

lemma recompute_scores_claude_code: "code (recompute_scores_claude s rate diff intensity) = code s"
  using recompute_scores_claude_shape [of s rate diff intensity]
  by (elim exE) simp

lemma recompute_scores_claude_price:
  "price (recompute_scores_claude s rate diff intensity) = price s"
  using recompute_scores_claude_shape [of s rate diff intensity]
  by (elim exE) simp

text \<open>
  C8. Take a symbol of the stress batch whose code occurs once in the batch and is
  indexed by \<open>_stock_by_code\<close>, with a candle cache \<open>series\<close> that is not empty, and a
  replay that starts at index 0 (no cursor stored yet, or one that reads as 0). Then,
  for \<open>_run_stress_tick\<close> of \<open>perf_real_main\<close> and of \<open>perf_real_claude\<close> alike, the
  ticks themselves leave the cache and the batch as they are, and the k-th tick
  (from 0) reads index k mod n and applies that candle to the symbol state, whose price
  becomes the candle's close; it stores the cursor k mod n + 1. After n ticks the index
  read is 0 again, and tick k + n reads the same index as tick k.
\<close>

theorem stress_replay_wraps:
  assumes "by_code_ok a0" "p_stock_by_code a0 cd = Some r"
    "p_candles a0 cd = Some series" "series \<noteq> []"
    "distinct (batch_codes a0)" "cd \<in> set (batch_codes a0)"
    "replay_index a0 cd series = 0"
  shows
    "p_candles ((run_stress_tick_main ^^ k) a0) cd = Some series \<and>
     batch_codes ((run_stress_tick_main ^^ k) a0) = batch_codes a0 \<and>
     replay_index ((run_stress_tick_main ^^ k) a0) cd series = k mod length series \<and>
     replay_index ((run_stress_tick_main ^^ length series) a0) cd series = 0 \<and>
     replay_index ((run_stress_tick_main ^^ (k + length series)) a0) cd series
       = replay_index ((run_stress_tick_main ^^ k) a0) cd series \<and>
     p_stress_candle_replay_idx (run_stress_tick_main ((run_stress_tick_main ^^ k) a0)) cd
       = Some (k mod length series + 1) \<and>
     heap (run_stress_tick_main ((run_stress_tick_main ^^ k) a0)) r
       = apply_candle (\<lambda>s rate. recompute_scores s rate 0 0)
           (heap ((run_stress_tick_main ^^ k) a0) r) (series ! (k mod length series)) \<and>
     price (heap (run_stress_tick_main ((run_stress_tick_main ^^ k) a0)) r)
       = bar_c (series ! (k mod length series)) \<and>
     p_candles ((run_stress_tick_claude ^^ k) a0) cd = Some series \<and>
     batch_codes ((run_stress_tick_claude ^^ k) a0) = batch_codes a0 \<and>
     replay_index ((run_stress_tick_claude ^^ k) a0) cd series = k mod length series \<and>
     replay_index ((run_stress_tick_claude ^^ length series) a0) cd series = 0 \<and>
     replay_index ((run_stress_tick_claude ^^ (k + length series)) a0) cd series
       = replay_index ((run_stress_tick_claude ^^ k) a0) cd series \<and>
     p_stress_candle_replay_idx (run_stress_tick_claude ((run_stress_tick_claude ^^ k) a0)) cd
       = Some (k mod length series + 1) \<and>
     heap (run_stress_tick_claude ((run_stress_tick_claude ^^ k) a0)) r
       = apply_candle (\<lambda>s rate. recompute_scores_claude s rate 0 0)
           (heap ((run_stress_tick_claude ^^ k) a0) r) (series ! (k mod length series)) \<and>
     price (heap (run_stress_tick_claude ((run_stress_tick_claude ^^ k) a0)) r)
       = bar_c (series ! (k mod length series))"
proof -
  have m: "\<And>s rate. code (recompute_scores s rate 0 0) = code s"
    "\<And>s rate. price (recompute_scores s rate 0 0) = price s"
    by (simp_all add: recompute_scores_code recompute_scores_price)
  have c: "\<And>s rate. code (recompute_scores_claude s rate 0 0) = code s"
    "\<And>s rate. price (recompute_scores_claude s rate 0 0) = price s"
    by (simp_all add: recompute_scores_claude_code recompute_scores_claude_price)
  note 1 = stress_replay_cycle [of "\<lambda>s rate. recompute_scores s rate 0 0", OF m assms, of k,
      folded run_stress_tick_main_def]
  note 2 = stress_replay_cycle [of "\<lambda>s rate. recompute_scores_claude s rate 0 0", OF c assms, of k,
      folded run_stress_tick_claude_def]
  from 1 2 show ?thesis by (intro conjI) (elim conjE, assumption)+
qed

theorem stress_replay_wraps_witness:
  "by_code_ok two_candle_adapter \<and>
   p_stock_by_code two_candle_adapter ''005930'' = Some 0 \<and>
   p_candles two_candle_adapter ''005930'' = Some two_candles \<and>
   two_candles \<noteq> [] \<and>
   distinct (batch_codes two_candle_adapter) \<and>
   ''005930'' \<in> set (batch_codes two_candle_adapter) \<and>
   replay_index two_candle_adapter ''005930'' two_candles = 0 \<and>
   replay_index ((run_stress_tick_main ^^ 3) two_candle_adapter) ''005930'' two_candles = 1 \<and>
   price (heap (run_stress_tick_main ((run_stress_tick_main ^^ 3) two_candle_adapter)) 0) = 95 \<and>
   price (heap (run_stress_tick_claude ((run_stress_tick_claude ^^ 3) two_candle_adapter)) 0) = 95"
proof -
  have h1: "by_code_ok two_candle_adapter"
    by (simp add: by_code_ok_def two_candle_adapter_def one_symbol_adapter_def new_stock_def
        split: if_splits)
  have h2: "p_stock_by_code two_candle_adapter ''005930'' = Some 0"
    by (simp add: two_candle_adapter_def one_symbol_adapter_def)
  have h3: "p_candles two_candle_adapter ''005930'' = Some two_candles"
    by (simp add: two_candle_adapter_def)
  have h4: "two_candles \<noteq> []" by (simp add: two_candles_def)
  have bc: "batch_codes two_candle_adapter = [''005930'']"
    by (simp add: batch_codes_def two_candle_adapter_def one_symbol_adapter_def adapter_init_def
        slice_to_def new_stock_def)
  have h5: "distinct (batch_codes two_candle_adapter)" by (simp add: bc)
  have h6: "''005930'' \<in> set (batch_codes two_candle_adapter)" by (simp add: bc)
  have h7: "replay_index two_candle_adapter ''005930'' two_candles = 0"
    by (simp add: replay_index_def two_candle_adapter_def one_symbol_adapter_def adapter_init_def)
  have n: "length two_candles = 2" by (simp add: two_candles_def)
  have c: "bar_c (two_candles ! 1) = 95" by (simp add: two_candles_def)
  have k: "(3::nat) mod 2 = 1" by simp
  note T = stress_replay_wraps [OF h1 h2 h3 h4 h5 h6 h7, of 3, unfolded n k]
  from T have A: "replay_index ((run_stress_tick_main ^^ 3) two_candle_adapter) ''005930''
      two_candles = 1" by blast
  from T have "price (heap (run_stress_tick_main
      ((run_stress_tick_main ^^ 3) two_candle_adapter)) 0) = bar_c (two_candles ! 1)" by blast
  with c have B: "price (heap (run_stress_tick_main
      ((run_stress_tick_main ^^ 3) two_candle_adapter)) 0) = 95" by simp
  from T have "price (heap (run_stress_tick_claude
      ((run_stress_tick_claude ^^ 3) two_candle_adapter)) 0) = bar_c (two_candles ! 1)" by blast
  with c have C: "price (heap (run_stress_tick_claude
      ((run_stress_tick_claude ^^ 3) two_candle_adapter)) 0) = 95" by simp
  show ?thesis by (intro conjI h1 h2 h3 h4 h5 h6 h7 A B C)
qed

lemma list_get_in_range:
  "0 \<le> i \<Longrightarrow> i < int (length xs) \<Longrightarrow> list_get xs i = Inr (xs ! nat i)"
  by (simp add: list_get_def)

lemma clamp_index_less: "stocks a \<noteq> [] \<Longrightarrow> clamp_index a stock_idx < length (stocks a)"
proof -
  assume "stocks a \<noteq> []"
  then have "0 < length (stocks a)" by simp
  then show ?thesis unfolding clamp_index_def by arith
qed

lemma list_get_clamp:
  assumes "stocks a \<noteq> []"
  shows "list_get (stocks a) (max 0 (min stock_idx (int (length (stocks a)) - 1)))
           = Inr (stocks a ! clamp_index a stock_idx)"
proof -
  from assms have "0 < length (stocks a)" by simp
  then have "max 0 (min stock_idx (int (length (stocks a)) - 1)) < int (length (stocks a))"
    by arith
  then show ?thesis by (simp add: list_get_in_range clamp_index_def)
qed

lemma rewind_in_range:
  assumes "series \<noteq> []" "rewind market_open cd series i a = (i', a')"
  shows "i' < length series"
  using assms by (auto simp add: rewind_def Let_def split: if_splits)

lemma emit_row_total:
  assumes "i < length series"
  shows "\<not> isl (emit_row cd r series i a)"
  using assms by (simp add: emit_row_def list_get_in_range Let_def)

lemma generate_candle_not_error: "\<not> isl (generate_candle v market_open a stock_idx)"
proof (cases "stocks a = []")
  case True
  then show ?thesis by (simp add: generate_candle_def)
next
  case False
  note g = list_get_clamp [OF False, of stock_idx]
  let ?r = "stocks a ! clamp_index a stock_idx"
  show ?thesis
  proof (cases "v = PerfMain \<and> placeholder (heap a ?r)")
    case True
    with False g show ?thesis by (simp add: generate_candle_def)
  next
    case np: False
    let ?cd = "code (heap a ?r)"
    let ?a1 = "ensure_cache ?cd a"
    let ?series = "case p_candles ?a1 ?cd of None \<Rightarrow> [] | Some xs \<Rightarrow> xs"
    let ?i = "case p_candle_idx ?a1 ?cd of None \<Rightarrow> 0 | Some j \<Rightarrow> j"
    show ?thesis
    proof (cases "?series = []")
      case True
      with False g np show ?thesis
        by (simp add: generate_candle_def Let_def)
    next
      case ne: False
      obtain i' a2 where rw: "rewind market_open ?cd ?series ?i ?a1 = (i', a2)"
        by (cases "rewind market_open ?cd ?series ?i ?a1")
      from rewind_in_range [OF ne rw] have "i' < length ?series" .
      from emit_row_total [OF this, of ?cd ?r a2] False g np ne rw show ?thesis
        by (simp add: generate_candle_def Let_def)
    qed
  qed
qed

lemma generate_candle_empty_universe:
  "stocks a = [] \<Longrightarrow> generate_candle v market_open a stock_idx = Inr (zero_tuple, a)"
  by (simp add: generate_candle_def)

lemma generate_candle_placeholder:
  assumes "stocks a \<noteq> []" "placeholder (heap a (stocks a ! clamp_index a stock_idx))"
  shows "generate_candle PerfMain market_open a stock_idx = Inr (zero_tuple, a)"
  using assms list_get_clamp [OF assms(1), of stock_idx] by (simp add: generate_candle_def)

lemma ensure_cache_heap: "heap (ensure_cache cd a) = heap a"
  by (simp add: ensure_cache_def enqueue_candle_fetch_def Let_def)

lemma ensure_cache_empty:
  "p_candles a cd = None \<or> p_candles a cd = Some [] \<Longrightarrow>
     (case p_candles (ensure_cache cd a) cd of None \<Rightarrow> [] | Some xs \<Rightarrow> xs) = []"
  by (auto simp add: ensure_cache_def enqueue_candle_fetch_def Let_def)

lemma generate_candle_flat:
  assumes ne: "stocks a \<noteq> []"
    and np: "\<not> (v = PerfMain \<and> placeholder (heap a (stocks a ! clamp_index a stock_idx)))"
    and em: "p_candles a (code (heap a (stocks a ! clamp_index a stock_idx))) = None \<or>
             p_candles a (code (heap a (stocks a ! clamp_index a stock_idx))) = Some []"
  shows "generate_candle v market_open a stock_idx =
           Inr (flat_bar v (stocks a ! clamp_index a stock_idx)
                  (ensure_cache (code (heap a (stocks a ! clamp_index a stock_idx))) a))"
  using ne np ensure_cache_empty [OF em] list_get_clamp [OF ne, of stock_idx]
  by (auto simp add: generate_candle_def Let_def)

lemma flat_bar_tuple:
  "fst (flat_bar v r a) =
     (price (heap a r), price (heap a r), price (heap a r), price (heap a r),
      (if v = PerfReal then max 0 (volume_acc (heap a r)) else 0), candle_idx (heap a r) + 1)"
  by (simp add: flat_bar_def Let_def)

text \<open>
  C10 as written fails on \<open>perf_real_main\<close>: the first placeholder row has an empty
  candle cache and the price 1, and \<open>generate_candle\<close> returns (0,0,0,0,0,0) for it, not
  a flat bar at 1.
\<close>

theorem generate_candle_placeholder_counterexample:
  "stocks placeholder_adapter \<noteq> [] \<and>
   p_candles placeholder_adapter
     (code (heap placeholder_adapter (stocks placeholder_adapter ! clamp_index placeholder_adapter 0)))
     = None \<and>
   price (heap placeholder_adapter (stocks placeholder_adapter ! clamp_index placeholder_adapter 0))
     = 1 \<and>
   generate_candle PerfMain False placeholder_adapter 0
     = Inr ((0, 0, 0, 0, 0, 0), placeholder_adapter)"
proof -
  have s: "stocks placeholder_adapter = [0, 1, 2, 3, 4]"
    and h: "heap placeholder_adapter = placeholder_stock"
    and c: "p_candles placeholder_adapter = Map.empty"
    by (simp_all add: placeholder_adapter_def adapter_init_def)
  have i: "clamp_index placeholder_adapter 0 = 0" by (simp add: clamp_index_def)
  have p: "placeholder (heap placeholder_adapter
      (stocks placeholder_adapter ! clamp_index placeholder_adapter 0))"
    by (simp add: i s h placeholder_stock_def)
  have n: "stocks placeholder_adapter \<noteq> []" by (simp add: s)
  from generate_candle_placeholder [OF n p, of False]
  have "generate_candle PerfMain False placeholder_adapter 0
     = Inr ((0, 0, 0, 0, 0, 0), placeholder_adapter)" by (simp add: zero_tuple_def)
  then show ?thesis by (simp add: n c i s h placeholder_stock_def)
qed

text \<open>
  C10, amended. \<open>generate_candle\<close> (all three versions) returns a 6-tuple for every
  integer index and never raises. With no symbols it returns (0,0,0,0,0,0) and changes
  nothing. Otherwise it selects the symbol at the index clamped into
  [0, len(stocks) - 1]; in \<open>perf_real_main\<close> a placeholder row gives (0,0,0,0,0,0) and
  changes nothing; for any other selected symbol whose candle cache is missing or empty
  the result is a flat bar at the symbol's current price, with the symbol's candle
  counter plus one.
\<close>

theorem generate_candle_total:
  "(\<exists>res a'. generate_candle v market_open a stock_idx = Inr (res, a')) \<and>
   (stocks a = [] \<longrightarrow> generate_candle v market_open a stock_idx = Inr ((0, 0, 0, 0, 0, 0), a)) \<and>
   (stocks a \<noteq> [] \<longrightarrow>
      clamp_index a stock_idx < length (stocks a) \<and>
      (stock_idx \<le> 0 \<longrightarrow> clamp_index a stock_idx = 0) \<and>
      (0 \<le> stock_idx \<and> stock_idx < int (length (stocks a)) \<longrightarrow>
         clamp_index a stock_idx = nat stock_idx) \<and>
      (int (length (stocks a)) \<le> stock_idx \<longrightarrow>
         clamp_index a stock_idx = length (stocks a) - 1) \<and>
      (placeholder (heap a (stocks a ! clamp_index a stock_idx)) \<longrightarrow>
         generate_candle PerfMain market_open a stock_idx = Inr ((0, 0, 0, 0, 0, 0), a)) \<and>
      (\<not> (v = PerfMain \<and> placeholder (heap a (stocks a ! clamp_index a stock_idx))) \<and>
       (p_candles a (code (heap a (stocks a ! clamp_index a stock_idx))) = None \<or>
        p_candles a (code (heap a (stocks a ! clamp_index a stock_idx))) = Some []) \<longrightarrow>
         (\<exists>vol a'. generate_candle v market_open a stock_idx =
            Inr ((price (heap a (stocks a ! clamp_index a stock_idx)),
                  price (heap a (stocks a ! clamp_index a stock_idx)),
                  price (heap a (stocks a ! clamp_index a stock_idx)),
                  price (heap a (stocks a ! clamp_index a stock_idx)),
                  vol, candle_idx (heap a (stocks a ! clamp_index a stock_idx)) + 1), a'))))"
proof (intro conjI impI)
  obtain x where x: "generate_candle v market_open a stock_idx = Inr x"
    using generate_candle_not_error [of v market_open a stock_idx]
    by (cases "generate_candle v market_open a stock_idx") simp_all
  obtain res a' where "x = (res, a')" by (cases x)
  with x show "\<exists>res a'. generate_candle v market_open a stock_idx = Inr (res, a')" by blast
next
  assume "stocks a = []"
  then show "generate_candle v market_open a stock_idx = Inr ((0, 0, 0, 0, 0, 0), a)"
    using generate_candle_empty_universe [of a v market_open stock_idx]
    by (simp add: zero_tuple_def)
next
  assume "stocks a \<noteq> []"
  then show "clamp_index a stock_idx < length (stocks a)" by (rule clamp_index_less)
next
  assume "stock_idx \<le> 0"
  then show "clamp_index a stock_idx = 0" by (simp add: clamp_index_def)
next
  assume "0 \<le> stock_idx \<and> stock_idx < int (length (stocks a))"
  then show "clamp_index a stock_idx = nat stock_idx" by (simp add: clamp_index_def)
next
  assume "stocks a \<noteq> []" "int (length (stocks a)) \<le> stock_idx"
  then have "0 < length (stocks a)" by simp
  with \<open>int (length (stocks a)) \<le> stock_idx\<close>
  show "clamp_index a stock_idx = length (stocks a) - 1"
    unfolding clamp_index_def by arith
next
  assume "stocks a \<noteq> []" "placeholder (heap a (stocks a ! clamp_index a stock_idx))"
  then show "generate_candle PerfMain market_open a stock_idx = Inr ((0, 0, 0, 0, 0, 0), a)"
    using generate_candle_placeholder [of a stock_idx market_open]
    by (simp add: zero_tuple_def)
next
  let ?s = "heap a (stocks a ! clamp_index a stock_idx)"
  assume ne: "stocks a \<noteq> []"
    and h: "\<not> (v = PerfMain \<and> placeholder ?s) \<and>
       (p_candles a (code ?s) = None \<or> p_candles a (code ?s) = Some [])"
  from h have np: "\<not> (v = PerfMain \<and> placeholder ?s)"
    and em: "p_candles a (code ?s) = None \<or> p_candles a (code ?s) = Some []" by simp_all
  let ?a1 = "ensure_cache (code ?s) a"
  let ?r = "stocks a ! clamp_index a stock_idx"
  from generate_candle_flat [OF ne np em, of market_open]
  have g: "generate_candle v market_open a stock_idx = Inr (flat_bar v ?r ?a1)" .
  define vol where "vol = (if v = PerfReal then max 0 (volume_acc ?s) else 0)"
  define a2 where "a2 = snd (flat_bar v ?r ?a1)"
  have "fst (flat_bar v ?r ?a1) =
     (price ?s, price ?s, price ?s, price ?s, vol, candle_idx ?s + 1)"
    by (simp add: flat_bar_tuple ensure_cache_heap vol_def)
  then have "flat_bar v ?r ?a1 =
     ((price ?s, price ?s, price ?s, price ?s, vol, candle_idx ?s + 1), a2)"
    by (simp add: a2_def prod_eq_iff)
  with g have "generate_candle v market_open a stock_idx =
     Inr ((price ?s, price ?s, price ?s, price ?s, vol, candle_idx ?s + 1), a2)"
    by (simp only:)
  then show "\<exists>vol a'. generate_candle v market_open a stock_idx =
            Inr ((price ?s, price ?s, price ?s, price ?s, vol, candle_idx ?s + 1), a')"
    by blast
qed

theorem generate_candle_total_witness:
  "stocks (adapter_init 50 20) = [] \<and>
   generate_candle PerfMain False (adapter_init 50 20) 3
     = Inr ((0, 0, 0, 0, 0, 0), adapter_init 50 20) \<and>
   stocks one_symbol_adapter \<noteq> [] \<and>
   clamp_index one_symbol_adapter (- 7) = 0 \<and>
   clamp_index one_symbol_adapter 99 = 0 \<and>
   (\<exists>vol a'. generate_candle PerfClaude False one_symbol_adapter (- 7)
      = Inr ((10000, 10000, 10000, 10000, vol, 1), a')) \<and>
   placeholder (heap placeholder_adapter
                  (stocks placeholder_adapter ! clamp_index placeholder_adapter 2)) \<and>
   generate_candle PerfMain True placeholder_adapter 2
     = Inr ((0, 0, 0, 0, 0, 0), placeholder_adapter)"
proof -
  have e: "stocks (adapter_init 50 20) = []" by (simp add: adapter_init_def)
  from e generate_candle_total [of PerfMain False "adapter_init 50 20" 3]
  have A: "generate_candle PerfMain False (adapter_init 50 20) 3
     = Inr ((0, 0, 0, 0, 0, 0), adapter_init 50 20)" by blast
  have s1: "stocks one_symbol_adapter = [0]" by (simp add: one_symbol_adapter_def)
  then have n1: "stocks one_symbol_adapter \<noteq> []" by simp
  have l1: "(- 7::int) \<le> 0" "int (length (stocks one_symbol_adapter)) \<le> 99"
    by (simp_all add: s1)
  note T1 = generate_candle_total [of PerfClaude False one_symbol_adapter "- 7"]
  from T1 n1 l1(1) have B: "clamp_index one_symbol_adapter (- 7) = 0" by blast
  from generate_candle_total [of PerfClaude False one_symbol_adapter 99] n1 l1(2)
  have "clamp_index one_symbol_adapter 99 = length (stocks one_symbol_adapter) - 1" by blast
  then have C: "clamp_index one_symbol_adapter 99 = 0" by (simp add: s1)
  have h1: "heap one_symbol_adapter (stocks one_symbol_adapter ! clamp_index one_symbol_adapter (- 7))
      = new_stock ''005930'' ''005930'' 10000"
    by (simp add: B s1) (simp add: one_symbol_adapter_def)
  have c1: "p_candles one_symbol_adapter
      (code (heap one_symbol_adapter
               (stocks one_symbol_adapter ! clamp_index one_symbol_adapter (- 7)))) = None"
    by (simp add: one_symbol_adapter_def adapter_init_def)
  have p1: "\<not> (PerfClaude = PerfMain \<and> placeholder (heap one_symbol_adapter
      (stocks one_symbol_adapter ! clamp_index one_symbol_adapter (- 7))))" by simp
  from T1 n1 p1 c1
  have "\<exists>vol a'. generate_candle PerfClaude False one_symbol_adapter (- 7) =
      Inr ((price (heap one_symbol_adapter
                     (stocks one_symbol_adapter ! clamp_index one_symbol_adapter (- 7))),
            price (heap one_symbol_adapter
                     (stocks one_symbol_adapter ! clamp_index one_symbol_adapter (- 7))),
            price (heap one_symbol_adapter
                     (stocks one_symbol_adapter ! clamp_index one_symbol_adapter (- 7))),
            price (heap one_symbol_adapter
                     (stocks one_symbol_adapter ! clamp_index one_symbol_adapter (- 7))),
            vol, candle_idx (heap one_symbol_adapter
                     (stocks one_symbol_adapter ! clamp_index one_symbol_adapter (- 7))) + 1), a')"
    by blast
  then have D: "\<exists>vol a'. generate_candle PerfClaude False one_symbol_adapter (- 7)
      = Inr ((10000, 10000, 10000, 10000, vol, 1), a')"
    unfolding h1 by (simp add: new_stock_def)
  have s2: "stocks placeholder_adapter = [0, 1, 2, 3, 4]"
    and h2: "heap placeholder_adapter = placeholder_stock"
    by (simp_all add: placeholder_adapter_def)
  have n2: "stocks placeholder_adapter \<noteq> []" by (simp add: s2)
  have E: "placeholder (heap placeholder_adapter
                  (stocks placeholder_adapter ! clamp_index placeholder_adapter 2))"
    by (simp add: h2 placeholder_stock_def)
  from generate_candle_total [of PerfMain True placeholder_adapter 2] n2 E
  have F: "generate_candle PerfMain True placeholder_adapter 2
     = Inr ((0, 0, 0, 0, 0, 0), placeholder_adapter)" by blast
  show ?thesis by (intro conjI e A n1 B C D E F)
qed

lemma api_get_loop_frame:
  "api_get_loop th req as a slept = Inr (res, a', slept') \<Longrightarrow> universe_unchanged a a'"
proof (induction as arbitrary: a slept)
  case Nil
  then show ?case by (simp add: universe_unchanged_def)
next
  case (Cons attempt rest)
  let ?a2 = "a\<lparr>p_api_calls := p_api_calls a + 1,
                p_api_errors := p_api_errors (a\<lparr>p_api_calls := p_api_calls a + 1\<rparr>) + 1\<rparr>"
  have u: "\<And>b. universe_unchanged ?a2 b \<Longrightarrow> universe_unchanged a b"
    by (simp add: universe_unchanged_def)
  from Cons.prems show ?case
    by (auto simp add: Let_def split: http_outcome.splits if_splits sum.splits
        intro!: u dest: Cons.IH) (simp_all add: universe_unchanged_def)
qed

lemma api_get_frame:
  "api_get th req a = Inr (res, a', slept) \<Longrightarrow> universe_unchanged a a'"
  unfolding api_get_def by (rule api_get_loop_frame)

lemma execute_condition_false:
  assumes "execute_condition repr th env a = Inr (False, a')"
  shows "universe_unchanged a a'"
  using assms
  by (auto simp add: execute_condition_def split: sum.splits prod.splits pyval.splits if_splits
      dest: api_get_frame)

lemma api_get_loop_n_max:
  "api_get_loop th req as a slept = Inr (res, a', slept') \<Longrightarrow> n_max a' = n_max a"
  by (induction as arbitrary: a slept)
     (auto simp add: Let_def split: http_outcome.splits if_splits sum.splits)

lemma api_get_n_max: "api_get th req a = Inr (res, a', slept) \<Longrightarrow> n_max a' = n_max a"
  unfolding api_get_def by (rule api_get_loop_n_max)

lemma install_stocks_cleared: "caches_cleared (install_stocks new a)"
  by (simp add: caches_cleared_def install_stocks_def Let_def)

lemma fresh_objects_codes:
  "map (\<lambda>r. code (if base \<le> r \<and> r < base + length new then new ! (r - base) else h r))
       [base ..< base + length new] = map code new"
  by (rule nth_equalityI) simp_all

lemma install_stocks_codes:
  "map (\<lambda>r. code (heap (install_stocks new a) r)) (stocks (install_stocks new a)) = map code new"
  using fresh_objects_codes [of "next_addr a" new "heap a"]
  by (simp add: install_stocks_def Let_def)

lemma enqueue_fields:
  "p_candles (enqueue_candle_fetch cd a) = p_candles a"
  "p_candle_idx (enqueue_candle_fetch cd a) = p_candle_idx a"
  "p_candles_daily (enqueue_candle_fetch cd a) = p_candles_daily a"
  "p_stress_candle_replay_idx (enqueue_candle_fetch cd a) = p_stress_candle_replay_idx a"
  "p_hist_metrics_done (enqueue_candle_fetch cd a) = p_hist_metrics_done a"
  "heap (enqueue_candle_fetch cd a) = heap a"
  "stocks (enqueue_candle_fetch cd a) = stocks a"
  by (simp_all add: enqueue_candle_fetch_def Let_def)

lemma fold_enqueue_fields:
  "p_candles (fold (\<lambda>s. enqueue_candle_fetch (code s)) new a) = p_candles a \<and>
   p_candle_idx (fold (\<lambda>s. enqueue_candle_fetch (code s)) new a) = p_candle_idx a \<and>
   p_candles_daily (fold (\<lambda>s. enqueue_candle_fetch (code s)) new a) = p_candles_daily a \<and>
   p_stress_candle_replay_idx (fold (\<lambda>s. enqueue_candle_fetch (code s)) new a)
     = p_stress_candle_replay_idx a \<and>
   p_hist_metrics_done (fold (\<lambda>s. enqueue_candle_fetch (code s)) new a) = p_hist_metrics_done a \<and>
   heap (fold (\<lambda>s. enqueue_candle_fetch (code s)) new a) = heap a \<and>
   stocks (fold (\<lambda>s. enqueue_candle_fetch (code s)) new a) = stocks a"
  by (induction new arbitrary: a) (simp_all add: enqueue_fields)

lemma fold_enqueue_keeps:
  assumes "caches_cleared a"
  shows "caches_cleared (fold (\<lambda>s. enqueue_candle_fetch (code s)) new a)"
  using assms fold_enqueue_fields [of new a] by (simp add: caches_cleared_def)

lemma unchanged_keeps:
  assumes "universe_unchanged a a1" "caches_cleared a"
  shows "caches_cleared (a1\<lparr>p_rt_subscribed := b\<rparr>) \<and> heap (a1\<lparr>p_rt_subscribed := b\<rparr>) = heap a \<and>
         stocks (a1\<lparr>p_rt_subscribed := b\<rparr>) = stocks a"
  using assms by (simp add: universe_unchanged_def caches_cleared_def)

lemma subscribe_keeps:
  assumes s: "subscribe_realtime th req force a = Inr (b, a')" and c: "caches_cleared a"
  shows "caches_cleared a' \<and> heap a' = heap a \<and> stocks a' = stocks a"
proof -
  from s have "a' = a\<lparr>p_rt_subscribed := False\<rparr> \<or> a' = a \<or>
      (\<exists>a1 resp slept. api_get th req a = Inr (resp, a1, slept) \<and> a' = a1\<lparr>p_rt_subscribed := b\<rparr>)"
    by (auto simp add: subscribe_realtime_def split: if_splits sum.splits prod.splits)
  then show ?thesis
  proof (elim disjE exE conjE)
    assume "a' = a\<lparr>p_rt_subscribed := False\<rparr>"
    with c show ?thesis by (simp add: caches_cleared_def)
  next
    assume "a' = a"
    with c show ?thesis by simp
  next
    fix a1 resp slept
    assume g: "api_get th req a = Inr (resp, a1, slept)" and e: "a' = a1\<lparr>p_rt_subscribed := b\<rparr>"
    from unchanged_keeps [OF api_get_frame [OF g] c, of b] e show ?thesis by simp
  qed
qed

lemma load_loop_codes:
  "load_loop repr th req names cds a = Inr (new, a') \<Longrightarrow> map code new = cds"
proof (induction cds arbitrary: a new a')
  case Nil
  then show ?case by simp
next
  case (Cons cd rest)
  from Cons.prems show ?case
    by (auto simp add: Let_def new_stock_def split: sum.splits prod.splits dest: Cons.IH)
qed

lemma load_stocks_result:
  assumes "load_stocks_by_codes repr th env a codes names = Inr a'"
  shows "caches_cleared a' \<and>
         map (\<lambda>r. code (heap a' r)) (stocks a') = slice_to (max 1 (n_max a)) (dedup_first codes)"
proof -
  let ?a0 = "a\<lparr>stocks := filter (\<lambda>r. \<not> placeholder (heap a r)) (stocks a),
                p_stock_by_code := (p_stock_by_code a)(''000000'' := None)\<rparr>"
  let ?cds = "slice_to (max 1 (n_max a)) (dedup_first codes)"
  from assms obtain new a1 where l: "load_loop repr th (symbol_req env) names ?cds ?a0 = Inr (new, a1)"
    by (auto simp add: load_stocks_by_codes_def Let_def split: sum.splits prod.splits)
  let ?a3 = "fold (\<lambda>s. enqueue_candle_fetch (code s)) new (install_stocks new a1)"
  from load_loop_codes [OF l] have c: "map code new = ?cds" .
  have k1: "caches_cleared ?a3"
    by (rule fold_enqueue_keeps) (rule install_stocks_cleared)
  have "map (\<lambda>r. code (heap ?a3 r)) (stocks ?a3) = map code new"
    using fold_enqueue_fields [of new "install_stocks new a1"] install_stocks_codes [of new a1]
    by simp
  with c k1 have k: "caches_cleared ?a3 \<and> map (\<lambda>r. code (heap ?a3 r)) (stocks ?a3) = ?cds"
    by simp
  from assms l have "a' = ?a3 \<or> (\<exists>b. subscribe_realtime th (subscribe_req env) True ?a3 = Inr (b, a'))"
    by (auto simp add: load_stocks_by_codes_def Let_def split: sum.splits prod.splits if_splits)
  then show ?thesis
  proof
    assume "a' = ?a3"
    with k show ?thesis by simp
  next
    assume "\<exists>b. subscribe_realtime th (subscribe_req env) True ?a3 = Inr (b, a')"
    then obtain b where "subscribe_realtime th (subscribe_req env) True ?a3 = Inr (b, a')" ..
    from subscribe_keeps [OF this] k show ?thesis by simp
  qed
qed

lemma execute_condition_true:
  assumes "execute_condition repr th env a = Inr (True, a')"
  shows "caches_cleared a' \<and>
         (\<exists>rs a1 slept pkvs codes.
            api_get th (search_req env) a = Inr (rs, a1, slept) \<and>
            data rs (PDict []) = PDict pkvs \<and>
            search_codes repr (map_of pkvs) = Inr codes \<and> codes \<noteq> [] \<and>
            map (\<lambda>r. code (heap a' r)) (stocks a') = slice_to (max 1 (n_max a)) (dedup_first codes))"
proof -
  from assms obtain rs a1 slept pkvs codes names where
    g: "api_get th (search_req env) a = Inr (rs, a1, slept)"
    and d: "data rs (PDict []) = PDict pkvs"
    and c: "search_codes repr (map_of pkvs) = Inr codes" "codes \<noteq> []"
    and l: "load_stocks_by_codes repr th env a1 codes names = Inr a'"
    by (auto simp add: execute_condition_def split: sum.splits prod.splits pyval.splits if_splits)
  from load_stocks_result [OF l] api_get_n_max [OF g] g d c show ?thesis by auto
qed

lemma ok_dict: "\<exists>b. ok (PDict kvs) = Inr b"
  by (cases "truthy (PDict kvs)") (auto simp add: ok_def)

lemma execute_condition_no_codes:
  assumes g: "api_get th (search_req env) a = Inr (PDict kvs, a1, slept)"
    and z: "ok (PDict kvs) = Inr False \<or>
            (\<forall>pkvs. data (PDict kvs) (PDict []) \<noteq> PDict pkvs) \<or>
            (\<exists>pkvs names. data (PDict kvs) (PDict []) = PDict pkvs \<and>
               search_codes repr (map_of pkvs) = Inr [] \<and>
               search_names repr (map_of pkvs) = Inr names)"
  shows "execute_condition repr th env a = Inr (False, a1)"
proof -
  obtain b where b: "ok (PDict kvs) = Inr b" using ok_dict by blast
  show ?thesis
  proof (cases b)
    case False
    with g b show ?thesis by (simp add: execute_condition_def)
  next
    case True
    with z b have "(\<forall>pkvs. data (PDict kvs) (PDict []) \<noteq> PDict pkvs) \<or>
            (\<exists>pkvs names. data (PDict kvs) (PDict []) = PDict pkvs \<and>
               search_codes repr (map_of pkvs) = Inr [] \<and>
               search_names repr (map_of pkvs) = Inr names)" by simp
    then show ?thesis
    proof
      assume "\<forall>pkvs. data (PDict kvs) (PDict []) \<noteq> PDict pkvs"
      with g b True show ?thesis
        by (simp add: execute_condition_def split: pyval.splits)
    next
      assume "\<exists>pkvs names. data (PDict kvs) (PDict []) = PDict pkvs \<and>
               search_codes repr (map_of pkvs) = Inr [] \<and>
               search_names repr (map_of pkvs) = Inr names"
      with g b True show ?thesis
        by (auto simp add: execute_condition_def)
    qed
  qed
qed

lemma execute_condition_loads:
  assumes "api_get th (search_req env) a = Inr (PDict kvs, a1, slept)"
    "ok (PDict kvs) = Inr True" "data (PDict kvs) (PDict []) = PDict pkvs"
    "search_codes repr (map_of pkvs) = Inr codes" "codes \<noteq> []"
    "search_names repr (map_of pkvs) = Inr names"
    "load_stocks_by_codes repr th env a1 codes names = Inr a2"
  shows "execute_condition repr th env a = Inr (True, a2)"
  using assms by (simp add: execute_condition_def)

text \<open>
  C6. When the search response (a JSON object) is a failure, or carries no payload
  dict, or its payload yields zero codes, \<open>execute_condition\<close> returns false, and the
  state it leaves differs from the one before only in the request counters of
  \<open>_api_get\<close>: the symbol table, the candle caches and cursors, the replay cursors, the
  prefetch queue and set, the daily candles and their metrics flag and the subscription
  flag are as before. Every false return leaves them so. A true return happens only
  with at least one code extracted; then the caches are cleared and the symbol table
  holds the distinct codes, up to the capacity, in order.
\<close>

theorem execute_condition_zero_codes:
  "(api_get th (search_req env) a = Inr (PDict kvs, a1, slept) \<and>
    (ok (PDict kvs) = Inr False \<or>
     (\<forall>pkvs. data (PDict kvs) (PDict []) \<noteq> PDict pkvs) \<or>
     (\<exists>pkvs names. data (PDict kvs) (PDict []) = PDict pkvs \<and>
        search_codes repr (map_of pkvs) = Inr [] \<and>
        search_names repr (map_of pkvs) = Inr names)) \<longrightarrow>
      execute_condition repr th env a = Inr (False, a1) \<and> universe_unchanged a a1) \<and>
   (execute_condition repr th env a = Inr (False, a') \<longrightarrow> universe_unchanged a a') \<and>
   (execute_condition repr th env a = Inr (True, a'') \<longrightarrow>
      caches_cleared a'' \<and>
      (\<exists>rs a1 slept pkvs codes.
         api_get th (search_req env) a = Inr (rs, a1, slept) \<and>
         data rs (PDict []) = PDict pkvs \<and>
         search_codes repr (map_of pkvs) = Inr codes \<and> codes \<noteq> [] \<and>
         map (\<lambda>r. code (heap a'' r)) (stocks a'')
           = slice_to (max 1 (n_max a)) (dedup_first codes)))"
proof (intro conjI impI)
  assume h: "api_get th (search_req env) a = Inr (PDict kvs, a1, slept) \<and>
    (ok (PDict kvs) = Inr False \<or>
     (\<forall>pkvs. data (PDict kvs) (PDict []) \<noteq> PDict pkvs) \<or>
     (\<exists>pkvs names. data (PDict kvs) (PDict []) = PDict pkvs \<and>
        search_codes repr (map_of pkvs) = Inr [] \<and>
        search_names repr (map_of pkvs) = Inr names))"
  then have g: "api_get th (search_req env) a = Inr (PDict kvs, a1, slept)" by simp
  from h show "execute_condition repr th env a = Inr (False, a1)"
    using execute_condition_no_codes [of th env a kvs a1 slept repr] by blast
  from g show "universe_unchanged a a1" by (rule api_get_frame)
next
  assume "execute_condition repr th env a = Inr (False, a')"
  then show "universe_unchanged a a'" by (rule execute_condition_false)
next
  assume t: "execute_condition repr th env a = Inr (True, a'')"
  from execute_condition_true [OF t] show "caches_cleared a''" by simp
  from execute_condition_true [OF t]
  show "\<exists>rs a1 slept pkvs codes.
         api_get th (search_req env) a = Inr (rs, a1, slept) \<and>
         data rs (PDict []) = PDict pkvs \<and>
         search_codes repr (map_of pkvs) = Inr codes \<and> codes \<noteq> [] \<and>
         map (\<lambda>r. code (heap a'' r)) (stocks a'')
           = slice_to (max 1 (n_max a)) (dedup_first codes)" by simp
qed

lemma search_eval:
  "api_get (3 / 10) (search_req (broker_with cds)) two_candle_adapter
     = Inr (search_response cds,
            two_candle_adapter\<lparr>p_api_calls := p_api_calls two_candle_adapter + 1\<rparr>, [3 / 10])"
  "data (search_response cds) (PDict []) = PDict [(''Codes'', PList cds), (''Stocks'', PList [])]"
  "search_names (\<lambda>_. []) (map_of [(''Codes'', PList cds), (''Stocks'', PList [])]) = Inr Map.empty"
  "ok (search_response cds) = Inr True"
  by (simp_all add: api_get_def broker_with_def search_response_def data_def
      search_names_def first_valid_def blank3_def dict_get_def or_empty_list_def truthy_def
      py_iter_def ok_def)

lemma search_none_eval:
  "search_codes (\<lambda>_. []) (map_of [(''Codes'', PList []), (''Stocks'', PList [])]) = Inr []"
  by (simp add: search_codes_def first_valid_def blank3_def dict_get_def or_empty_list_def
      truthy_def py_iter_def)

lemma search_one_eval:
  "search_codes (\<lambda>_. []) (map_of [(''Codes'', PList [PStr ''000660'']), (''Stocks'', PList [])])
     = Inr [''000660'']"
  by (simp add: search_codes_def first_valid_def blank3_def dict_get_def or_empty_list_def
      truthy_def py_iter_def py_str_def strip_def is_space_def)

lemma load_one_eval:
  "\<not> isl (load_stocks_by_codes (\<lambda>_. []) (3 / 10) (broker_with [PStr ''000660''])
     (two_candle_adapter\<lparr>p_api_calls := p_api_calls two_candle_adapter + 1\<rparr>) [''000660'']
     Map.empty)"
  by (simp add: load_stocks_by_codes_def Let_def slice_to_def dedup_first_def two_candle_adapter_def
      one_symbol_adapter_def adapter_init_def broker_with_def api_get_def failure_result_def data_def
      first_valid_any_def first_valid_def abs_num_main_def to_num_main_def new_stock_def
      enqueue_candle_fetch_def install_stocks_def py_str_def strip_def is_space_def)

theorem execute_condition_zero_codes_witness:
  "api_get (3 / 10) (search_req (broker_with [])) two_candle_adapter
     = Inr (search_response [],
            two_candle_adapter\<lparr>p_api_calls := p_api_calls two_candle_adapter + 1\<rparr>, [3 / 10]) \<and>
   data (search_response []) (PDict []) = PDict [(''Codes'', PList []), (''Stocks'', PList [])] \<and>
   search_codes (\<lambda>_. []) (map_of [(''Codes'', PList []), (''Stocks'', PList [])]) = Inr [] \<and>
   execute_condition (\<lambda>_. []) (3 / 10) (broker_with []) two_candle_adapter
     = Inr (False, two_candle_adapter\<lparr>p_api_calls := p_api_calls two_candle_adapter + 1\<rparr>) \<and>
   universe_unchanged two_candle_adapter
     (two_candle_adapter\<lparr>p_api_calls := p_api_calls two_candle_adapter + 1\<rparr>) \<and>
   (\<exists>a''. execute_condition (\<lambda>_. []) (3 / 10) (broker_with [PStr ''000660'']) two_candle_adapter
            = Inr (True, a'') \<and> caches_cleared a'')"
proof -
  let ?a1 = "two_candle_adapter\<lparr>p_api_calls := p_api_calls two_candle_adapter + 1\<rparr>"
  let ?p0 = "[(''Codes'', PList []), (''Stocks'', PList [])]"
  note e0 = search_eval [of "[]"]
  have z: "\<exists>pkvs names. data (search_response []) (PDict []) = PDict pkvs \<and>
        search_codes (\<lambda>_. []) (map_of pkvs) = Inr [] \<and>
        search_names (\<lambda>_. []) (map_of pkvs) = Inr names"
    using e0(2,3) search_none_eval by blast
  note T0 = execute_condition_zero_codes [where th = "3 / 10" and env = "broker_with []"
      and a = two_candle_adapter
      and kvs = "[(''Success'', PBool True), (''Message'', PStr []), (''Data'', PDict ?p0)]"
      and ?a1.0 = ?a1 and slept = "[3 / 10]" and repr = "\<lambda>_. []" and a' = ?a1,
      folded search_response_def]
  from T0 e0(1) z have A: "execute_condition (\<lambda>_. []) (3 / 10) (broker_with []) two_candle_adapter
     = Inr (False, ?a1)" by blast
  from T0 A have B: "universe_unchanged two_candle_adapter ?a1" by blast
  note e1 = search_eval [of "[PStr ''000660'']"]
  obtain a2 where l: "load_stocks_by_codes (\<lambda>_. []) (3 / 10) (broker_with [PStr ''000660''])
     ?a1 [''000660''] Map.empty = Inr a2"
    using load_one_eval
    by (cases "load_stocks_by_codes (\<lambda>_. []) (3 / 10) (broker_with [PStr ''000660''])
     ?a1 [''000660''] Map.empty") simp_all
  have n: "[''000660''] \<noteq> []" by simp
  have t: "execute_condition (\<lambda>_. []) (3 / 10) (broker_with [PStr ''000660'']) two_candle_adapter
      = Inr (True, a2)"
    by (rule execute_condition_loads [OF e1(1) [unfolded search_response_def]
          e1(4) [unfolded search_response_def] e1(2) [unfolded search_response_def]
          search_one_eval n e1(3) l])
  from execute_condition_zero_codes [where th = "3 / 10"
      and env = "broker_with [PStr ''000660'']" and a = two_candle_adapter
      and repr = "\<lambda>_. []" and a'' = a2] t
  have "caches_cleared a2" by blast
  with t have C: "\<exists>a''. execute_condition (\<lambda>_. []) (3 / 10) (broker_with [PStr ''000660''])
      two_candle_adapter = Inr (True, a'') \<and> caches_cleared a''" by blast
  show ?thesis by (intro conjI e0(1) e0(2) search_none_eval A B C)
qed

end
